theory Spec2Isabelle
  imports Complex_Main "HOL-Library.Sublist"
begin

section \<open>Agent identifiers and the dependency map (crew.py)\<close>

text \<open>
  Python strings are modelled as HOL strings: lists of 8-bit characters, read as the
  code points 0..255.  The agent identifiers are the module constants of crew.py.
\<close>

definition AGENT_PRODUCT_OWNER :: string where
  "AGENT_PRODUCT_OWNER = ''product_owner''"

definition AGENT_ARCHITECT :: string where
  "AGENT_ARCHITECT = ''architect''"

definition AGENT_BACKEND_ENGINEER :: string where
  "AGENT_BACKEND_ENGINEER = ''backend_engineer''"

definition AGENT_FRONTEND_ENGINEER :: string where
  "AGENT_FRONTEND_ENGINEER = ''frontend_engineer''"

definition AGENT_QA_ENGINEER :: string where
  "AGENT_QA_ENGINEER = ''qa_engineer''"

definition AGENT_MANAGER :: string where
  "AGENT_MANAGER = ''manager''"

text \<open>The dictionary \<open>AGENT_DEPENDENCIES\<close>, as an association list in source order.\<close>

definition AGENT_DEPENDENCIES :: "(string \<times> string list) list" where
  "AGENT_DEPENDENCIES =
     [(AGENT_PRODUCT_OWNER, [AGENT_ARCHITECT, AGENT_BACKEND_ENGINEER, AGENT_FRONTEND_ENGINEER]),
      (AGENT_ARCHITECT, [AGENT_BACKEND_ENGINEER, AGENT_FRONTEND_ENGINEER]),
      (AGENT_BACKEND_ENGINEER, [AGENT_FRONTEND_ENGINEER]),
      (AGENT_FRONTEND_ENGINEER, [])]"

text \<open>The local list \<open>execution_order\<close> of \<open>_add_agent_dependencies\<close>.\<close>

definition execution_order :: "string list" where
  "execution_order =
     [AGENT_PRODUCT_OWNER, AGENT_ARCHITECT, AGENT_BACKEND_ENGINEER, AGENT_FRONTEND_ENGINEER]"

text \<open>
  The loop \<open>for agent in agents: if agent in AGENT_DEPENDENCIES:
  agents_to_rerun.update(AGENT_DEPENDENCIES[agent])\<close>, with the set being built as
  the accumulator.
\<close>

fun add_downstream :: "string list \<Rightarrow> string set \<Rightarrow> string set" where
  "add_downstream [] agents_to_rerun = agents_to_rerun"
| "add_downstream (agent # agents) agents_to_rerun =
     add_downstream agents
       (case map_of AGENT_DEPENDENCIES agent of
          Some deps \<Rightarrow> agents_to_rerun \<union> set deps
        | None \<Rightarrow> agents_to_rerun)"

text \<open>
  \<open>PentagonCrew._add_agent_dependencies\<close>: the set of the given agents, their
  downstream agents added, returned as the sublist of \<open>execution_order\<close> it contains.
\<close>

definition add_agent_dependencies :: "string list \<Rightarrow> string list" where
  "add_agent_dependencies agents =
     (let agents_to_rerun = add_downstream agents (set agents)
      in filter (\<lambda>agent. agent \<in> agents_to_rerun) execution_order)"

section \<open>Python strings\<close>

text \<open>
  \<open>str.isspace\<close> on one code point below 256: the ASCII white space 9..13 and 32, the
  separators 28..31, and the Latin-1 characters 133 (NEL) and 160 (NBSP).  The class
  \<open>\s\<close> of \<open>re\<close> on a \<open>str\<close> pattern is the same set.
\<close>

definition isspace :: "char \<Rightarrow> bool" where
  "isspace c =
     (let n = (of_char c :: nat)
      in (9 \<le> n \<and> n \<le> 13) \<or> (28 \<le> n \<and> n \<le> 32) \<or> n = 133 \<or> n = 160)"

text \<open>
  \<open>str.lower\<close> on one code point below 256: A..Z and the Latin-1 capitals 192..222
  (without the multiplication sign 215) move up by 32.
\<close>

definition lower_char :: "char \<Rightarrow> char" where
  "lower_char c =
     (let n = (of_char c :: nat)
      in if (65 \<le> n \<and> n \<le> 90) \<or> (192 \<le> n \<and> n \<le> 222 \<and> n \<noteq> 215)
         then char_of (n + 32) else c)"

definition lower :: "string \<Rightarrow> string" where
  "lower s = map lower_char s"

text \<open>\<open>str.strip()\<close>: white space removed at both ends.\<close>

definition strip :: "string \<Rightarrow> string" where
  "strip s = rev (dropWhile isspace (rev (dropWhile isspace s)))"

text \<open>
  \<open>str.replace(old, new)\<close>: every occurrence of \<open>old\<close>, found from the left without
  overlap, becomes \<open>new\<close>.  The source calls it with a non-empty \<open>old\<close> only; for the
  empty \<open>old\<close> the model returns the string as it is.
\<close>

function replace :: "string \<Rightarrow> string \<Rightarrow> string \<Rightarrow> string" where
  "replace old new [] = []"
| "replace old new (c # cs) =
     (if old \<noteq> [] \<and> prefix old (c # cs)
      then new @ replace old new (drop (length old) (c # cs))
      else c # replace old new cs)"
  by pat_completeness auto
termination
  by (relation "measure (\<lambda>(old, new, s). length s)") (auto simp: Suc_le_eq)

text \<open>\<open>sep.join(parts)\<close>.\<close>

fun join :: "string \<Rightarrow> string list \<Rightarrow> string" where
  "join sep [] = []"
| "join sep [x] = x"
| "join sep (x # y # ys) = x @ sep @ join sep (y # ys)"

section \<open>Values of \<open>json.loads\<close>\<close>

text \<open>
  A parsed JSON document: \<open>None\<close>, \<open>bool\<close>, \<open>int\<close>, \<open>float\<close> (without NaN and the
  infinities), \<open>str\<close>, \<open>list\<close> and \<open>dict\<close>.  A dictionary is an association list in
  insertion order; \<open>dict.get\<close> reads the first binding of a key.
\<close>

datatype json =
    JNull
  | JBool bool
  | JInt int
  | JFloat real
  | JStr string
  | JList "json list"
  | JDict "(string \<times> json) list"

text \<open>\<open>d.get(key, default)\<close>.\<close>

definition dict_get :: "(string \<times> 'v) list \<Rightarrow> string \<Rightarrow> 'v \<Rightarrow> 'v" where
  "dict_get d key dflt = (case map_of d key of Some v \<Rightarrow> v | None \<Rightarrow> dflt)"

text \<open>Python's truth value of a parsed document.\<close>

fun truthy :: "json \<Rightarrow> bool" where
  "truthy JNull = False"
| "truthy (JBool b) = b"
| "truthy (JInt i) = (i \<noteq> 0)"
| "truthy (JFloat r) = (r \<noteq> 0)"
| "truthy (JStr s) = (s \<noteq> [])"
| "truthy (JList xs) = (xs \<noteq> [])"
| "truthy (JDict kvs) = (kvs \<noteq> [])"

datatype py_error = AttributeError | TypeError | GeneratorError

text \<open>
  What a \<open>for\<close> loop or a comprehension iterates over: the elements of a list, the
  one-character strings of a string, the keys of a dictionary; every other value raises
  \<open>TypeError\<close>.
\<close>

fun py_iter :: "json \<Rightarrow> py_error + json list" where
  "py_iter (JList xs) = Inr xs"
| "py_iter (JStr s) = Inr (map (\<lambda>c. JStr [c]) s)"
| "py_iter (JDict kvs) = Inr (map (\<lambda>kv. JStr (fst kv)) kvs)"
| "py_iter v = Inl TypeError"

section \<open>The QA schema (schemas.py)\<close>

text \<open>
  The stored data of a stage is the dump of its schema class, so each schema class is a
  record of its fields.  Field names carry a prefix where two classes share a name.
\<close>

record TestCase =
  tc_id :: string
  tc_description :: string
  tc_status :: string
  tc_notes :: string
  tc_responsible_agent :: string

record TestReport =
  overall_status :: string
  test_cases :: "TestCase list"
  tr_summary :: string
  recommendations :: "string list"
  issues_by_agent :: "(string \<times> string list) list"

text \<open>\<open>TestCase.validate_status\<close>.\<close>

definition validate_status :: "string \<Rightarrow> string" where
  "validate_status v0 =
     (let v = strip (lower v0)
      in if v \<notin> set [''pass'', ''fail'', ''skip'', ''passed'', ''failed'', ''skipped''] then ''skip''
         else if v = ''passed'' then ''pass''
         else if v \<in> set [''failed'', ''skipped''] then replace ''ed'' '''' v
         else v)"

text \<open>\<open>TestCase.validate_responsible_agent\<close>.\<close>

definition validate_responsible_agent :: "string \<Rightarrow> string" where
  "validate_responsible_agent v0 =
     (let v = strip (lower v0);
          valid_agents = [''product_owner'', ''architect'', ''backend_engineer'',
                          ''frontend_engineer'', '''']
      in if v \<notin> set valid_agents then '''' else v)"

text \<open>\<open>TestReport.validate_overall_status\<close>.\<close>

definition validate_overall_status :: "string \<Rightarrow> string" where
  "validate_overall_status v0 =
     (let v = strip (lower v0)
      in if v \<notin> set [''pass'', ''fail'', ''needs_review'', ''passed'', ''failed'']
         then ''needs_review''
         else if v = ''passed'' then ''pass''
         else if v = ''failed'' then ''fail''
         else v)"

section \<open>Stage results and the QA checks (crew.py)\<close>

text \<open>The dictionary \<open>{success, data, raw, error}\<close> every stage returns.\<close>

record 'd StageResult =
  success :: bool
  data :: "'d option"
  raw :: string
  error :: "string option"

text \<open>
  \<open>PentagonCrew._check_qa_passed\<close>.  The argument may be \<open>None\<close>.  When the result is
  marked successful and its data is \<open>None\<close>, \<open>data.get\<close> raises \<open>AttributeError\<close>.
\<close>

definition check_qa_passed :: "TestReport StageResult option \<Rightarrow> py_error + bool" where
  "check_qa_passed qa_output =
     (case qa_output of
        None \<Rightarrow> Inr False
      | Some out \<Rightarrow>
          if \<not> success out then Inr False
          else (case data out of
                  None \<Rightarrow> Inl AttributeError
                | Some d \<Rightarrow>
                    if lower (overall_status d) \<noteq> ''pass'' then Inr False
                    else if list_ex (\<lambda>tc. lower (tc_status tc) = ''fail'') (test_cases d)
                    then Inr False
                    else Inr True))"

text \<open>
  A Python \<open>set\<close> of names under construction is a duplicate-free list in insertion
  order; \<open>set.add\<close> is \<open>set_add\<close>.  (The order in which Python iterates over the set is
  not fixed by the language; only the fixed diagnostic text of the fallback depends on it.)
\<close>

definition set_add :: "'a \<Rightarrow> 'a list \<Rightarrow> 'a list" where
  "set_add x xs = (if x \<in> set xs then xs else xs @ [x])"

text \<open>The two loops of \<open>_get_agents_with_issues_from_report\<close>.\<close>

fun add_issue_agents :: "(string \<times> string list) list \<Rightarrow> string list \<Rightarrow> string list" where
  "add_issue_agents [] acc = acc"
| "add_issue_agents ((agent, issues) # rest) acc =
     add_issue_agents rest (if issues \<noteq> [] then set_add agent acc else acc)"

fun add_failed_agents :: "TestCase list \<Rightarrow> string list \<Rightarrow> string list" where
  "add_failed_agents [] acc = acc"
| "add_failed_agents (tc # rest) acc =
     add_failed_agents rest
       (if lower (tc_status tc) = ''fail'' \<and> tc_responsible_agent tc \<noteq> []
        then set_add (tc_responsible_agent tc) acc else acc)"

text \<open>\<open>PentagonCrew._get_agents_with_issues_from_report\<close>, on the stored test report.\<close>

definition get_agents_with_issues_from_report :: "TestReport option \<Rightarrow> string list" where
  "get_agents_with_issues_from_report test_report =
     (case test_report of
        None \<Rightarrow> []
      | Some d \<Rightarrow> add_failed_agents (test_cases d) (add_issue_agents (issues_by_agent d) []))"

section \<open>The manager's decision (crew.py)\<close>

text \<open>
  \<open>ManagerDecision\<close>.  On the primary path \<open>should_continue\<close>, \<open>reasoning\<close> and
  \<open>iteration_goal\<close> are whatever values the parsed proposal holds, so they are documents.
\<close>

record ManagerDecision =
  should_continue :: json
  agents_to_rerun :: "string list"
  reasoning :: json
  iteration_goal :: json

definition ManagerDecision_init :: ManagerDecision where
  "ManagerDecision_init =
     \<lparr>should_continue = JBool False, agents_to_rerun = [], reasoning = JStr '''',
      iteration_goal = JStr ''''\<rparr>"

text \<open>
  \<open>PentagonCrew._get_fallback_decision\<close>, on the stored test report.  An exception of
  \<open>_check_qa_passed\<close> is not caught here.
\<close>

definition get_fallback_decision :: "TestReport option \<Rightarrow> py_error + ManagerDecision" where
  "get_fallback_decision test_report =
     (let decision = ManagerDecision_init;
          qa_output = \<lparr>success = True, data = test_report, raw = '''', error = None\<rparr>
      in case check_qa_passed (Some qa_output) of
           Inl e \<Rightarrow> Inl e
         | Inr True \<Rightarrow>
             Inr (decision\<lparr>should_continue := JBool False,
                           reasoning := JStr ''QA passed, no issues found''\<rparr>)
         | Inr False \<Rightarrow>
             (let agents_with_issues = get_agents_with_issues_from_report test_report
              in if agents_with_issues \<noteq> []
                 then Inr (decision\<lparr>should_continue := JBool True,
                        agents_to_rerun := add_agent_dependencies agents_with_issues,
                        reasoning := JStr (''Issues found for: '' @ join '', '' agents_with_issues),
                        iteration_goal := JStr ''Fix identified issues''\<rparr>)
                 else Inr (decision\<lparr>should_continue := JBool False,
                        reasoning := JStr ''No specific agents identified with issues''\<rparr>)))"

text \<open>
  The comprehension \<open>[a for a in decision.agents_to_rerun if a in valid_agents]\<close>: an
  element is kept when it equals one of the four names, which only a string can.
\<close>

definition valid_agents :: "string list" where
  "valid_agents =
     [AGENT_PRODUCT_OWNER, AGENT_ARCHITECT, AGENT_BACKEND_ENGINEER, AGENT_FRONTEND_ENGINEER]"

fun keep_valid_agents :: "json list \<Rightarrow> string list" where
  "keep_valid_agents [] = []"
| "keep_valid_agents (JStr a # rest) =
     (if a \<in> set valid_agents then a # keep_valid_agents rest else keep_valid_agents rest)"
| "keep_valid_agents (v # rest) = keep_valid_agents rest"

text \<open>
  \<open>PentagonCrew._get_manager_decision\<close> from the line
  \<open>success, parsed = safe_parse_json(raw)\<close> on.  The pair \<open>(success, parsed)\<close> is a sum:
  \<open>Inl\<close> the error text of a failed recovery, \<open>Inr\<close> the parsed document.  An exception
  inside the \<open>try\<close> block (here: iterating over a value that is no list, string or
  dictionary) is caught and answered by the fallback; an exception of the fallback itself
  is not caught.
\<close>

definition decide_from_parsed ::
  "TestReport option \<Rightarrow> string + json \<Rightarrow> py_error + ManagerDecision" where
  "decide_from_parsed test_report result =
     (case result of
        Inr (JDict parsed) \<Rightarrow>
          (case py_iter (dict_get parsed ''agents_to_rerun'' (JList [])) of
             Inl e \<Rightarrow> get_fallback_decision test_report
           | Inr names \<Rightarrow>
               Inr \<lparr>should_continue = dict_get parsed ''should_continue'' (JBool False),
                    agents_to_rerun = add_agent_dependencies (keep_valid_agents names),
                    reasoning = dict_get parsed ''reasoning'' (JStr ''''),
                    iteration_goal = dict_get parsed ''iteration_goal'' (JStr '''')\<rparr>)
      | _ \<Rightarrow> get_fallback_decision test_report)"

section \<open>Regular expressions of the module \<open>re\<close>\<close>

text \<open>
  The patterns of schemas.py use literals, character classes, greedy and lazy repetition,
  the optional group, alternation, capturing groups and the anchor \<open>$\<close>.  A pattern is
  a term of \<open>rx\<close>; \<open>Seq\<close> is concatenation, \<open>Star\<close> is the greedy \<open>*\<close>, \<open>LazyStar\<close> is
  \<open>*?\<close>, \<open>Opt\<close> is the greedy \<open>?\<close>, \<open>Grp n\<close> is the \<open>n\<close>-th capturing group and \<open>Eol\<close>
  is \<open>$\<close> without the flag MULTILINE.
\<close>

datatype rx =
    Epsilon
  | Chr char
  | Cls "char \<Rightarrow> bool"
  | Eol
  | Seq rx rx
  | Alt rx rx
  | Star rx
  | LazyStar rx
  | Opt rx
  | Grp nat rx

text \<open>The greedy \<open>+\<close>, a literal string, and a sequence of patterns.\<close>

definition Plus :: "rx \<Rightarrow> rx" where
  "Plus r = Seq r (Star r)"

fun Str :: "string \<Rightarrow> rx" where
  "Str [] = Epsilon"
| "Str (c # cs) = Seq (Chr c) (Str cs)"

fun seq :: "rx list \<Rightarrow> rx" where
  "seq [] = Epsilon"
| "seq (r # rs) = Seq r (seq rs)"

text \<open>
  A state of the matcher is the text not yet consumed and the groups captured so far
  (latest first).  \<open>rx_match r st\<close> lists the states in which a match of \<open>r\<close> from
  \<open>st\<close> can end, in the order in which the backtracking matcher of \<open>re\<close> tries them: its
  head is the match \<open>re\<close> reports.  \<open>$\<close> holds at the end of the text and before a
  newline that ends the text.  An iteration of a repetition that consumes nothing is
  not repeated.
\<close>

type_synonym groups = "(nat \<times> string) list"

fun rx_match :: "rx \<Rightarrow> string \<times> groups \<Rightarrow> (string \<times> groups) list" where
  rx_Epsilon: "rx_match Epsilon st = [st]"
| rx_Chr: "rx_match (Chr c) (s, g) =
     (case s of [] \<Rightarrow> [] | x # xs \<Rightarrow> if x = c then [(xs, g)] else [])"
| rx_Cls: "rx_match (Cls p) (s, g) =
     (case s of [] \<Rightarrow> [] | x # xs \<Rightarrow> if p x then [(xs, g)] else [])"
| rx_Eol: "rx_match Eol (s, g) = (if s = [] \<or> s = [CHR 0x0A] then [(s, g)] else [])"
| rx_Seq: "rx_match (Seq a b) st = concat (map (rx_match b) (rx_match a st))"
| rx_Alt: "rx_match (Alt a b) st = rx_match a st @ rx_match b st"
| rx_Star: "rx_match (Star a) st =
     concat (map (\<lambda>st'. if length (fst st') < length (fst st)
                         then rx_match (Star a) st' else [])
                 (rx_match a st)) @ [st]"
| rx_LazyStar: "rx_match (LazyStar a) st =
     st # concat (map (\<lambda>st'. if length (fst st') < length (fst st)
                              then rx_match (LazyStar a) st' else [])
                      (rx_match a st))"
| rx_Opt: "rx_match (Opt a) st = rx_match a st @ [st]"
| rx_Grp: "rx_match (Grp n a) (s, g) =
     map (\<lambda>(s', g'). (s', (n, take (length s - length s') s) # g')) (rx_match a (s, g))"

declare rx_match.simps [simp del]

text \<open>
  A match object: the text matched (\<open>group(0)\<close>) and the captured groups.
  \<open>match.group(n)\<close> for a group that took part in the match is \<open>match_group m n\<close>.
\<close>

type_synonym rematch = "string \<times> groups"

definition match_group :: "rematch \<Rightarrow> nat \<Rightarrow> string" where
  "match_group m n = (if n = 0 then fst m else case map_of (snd m) n of Some s \<Rightarrow> s | None \<Rightarrow> [])"

text \<open>
  \<open>re.finditer\<close>: the matches from the left, without overlap.  After a match the scan
  goes on behind it; where the pattern does not match, or matches the empty string (no
  pattern of schemas.py does), the scan moves on by one character.
\<close>

function finditer :: "rx \<Rightarrow> string \<Rightarrow> rematch list" where
  "finditer r [] = (case rx_match r ([], []) of [] \<Rightarrow> [] | (rest, g) # _ \<Rightarrow> [([], g)])"
| "finditer r (c # cs) =
     (case rx_match r (c # cs, []) of
        [] \<Rightarrow> finditer r cs
      | (rest, g) # _ \<Rightarrow>
          (let n = length (c # cs) - length rest
           in (take n (c # cs), g) #
                (if 0 < n then finditer r (drop n (c # cs)) else finditer r cs)))"
  by pat_completeness auto
termination
  by (relation "measure (\<lambda>(r, s). length s)") auto

declare finditer.simps [simp del]

text \<open>\<open>re.search\<close>: the leftmost match.\<close>

definition re_search :: "rx \<Rightarrow> string \<Rightarrow> rematch option" where
  "re_search r s = (case finditer r s of [] \<Rightarrow> None | m # _ \<Rightarrow> Some m)"

text \<open>\<open>re.findall\<close> for a pattern with one group: the texts of group 1.\<close>

definition findall :: "rx \<Rightarrow> string \<Rightarrow> string list" where
  "findall r s = map (\<lambda>m. match_group m 1) (finditer r s)"

text \<open>
  \<open>re.sub(pattern, repl, s)\<close>: every match replaced by the text \<open>repl\<close> builds from it.
\<close>

function re_sub :: "rx \<Rightarrow> (rematch \<Rightarrow> string) \<Rightarrow> string \<Rightarrow> string" where
  "re_sub r repl [] = (case rx_match r ([], []) of [] \<Rightarrow> [] | (rest, g) # _ \<Rightarrow> repl ([], g))"
| "re_sub r repl (c # cs) =
     (case rx_match r (c # cs, []) of
        [] \<Rightarrow> c # re_sub r repl cs
      | (rest, g) # _ \<Rightarrow>
          (let n = length (c # cs) - length rest
           in if 0 < n then repl (take n (c # cs), g) @ re_sub r repl (drop n (c # cs))
              else repl ([], g) @ c # re_sub r repl cs))"
  by pat_completeness auto
termination
  by (relation "measure (\<lambda>(r, repl, s). length s)") auto

declare re_sub.simps [simp del]

text \<open>The characters and classes the patterns name.\<close>

definition dquote :: char where "dquote = CHR 0x22"
definition squote :: char where "squote = CHR 0x27"
definition backslash :: char where "backslash = CHR 0x5C"
definition newline :: char where "newline = CHR 0x0A"
definition backtick :: char where "backtick = CHR 0x60"

text \<open>\<open>\s*\<close>, \<open>.\<close> (without DOTALL), \<open>[\s\S]\<close>, \<open>[^"]\<close>, \<open>[^"\\]\<close>.\<close>

definition ws :: rx where
  "ws = Star (Cls isspace)"


definition AnyChar :: rx where
  "AnyChar = Cls (\<lambda>c. True)"






section \<open>Recovering JSON from text (schemas.py)\<close>

text \<open>\<open>s.startswith(c)\<close> and \<open>s.endswith(c)\<close> for a one-character \<open>c\<close>.\<close>

definition startswith :: "string \<Rightarrow> char \<Rightarrow> bool" where
  "startswith s c = (case s of [] \<Rightarrow> False | x # xs \<Rightarrow> x = c)"

definition endswith :: "string \<Rightarrow> char \<Rightarrow> bool" where
  "endswith s c = (s \<noteq> [] \<and> last s = c)"

text \<open>
  \<open>s.find(c)\<close> and \<open>s.rfind(c)\<close> for a one-character \<open>c\<close>: the first and the last
  index of \<open>c\<close>; \<open>None\<close> is Python's \<open>-1\<close>.
\<close>

fun find_chr :: "string \<Rightarrow> char \<Rightarrow> nat option" where
  "find_chr [] c = None"
| "find_chr (x # xs) c = (if x = c then Some 0 else map_option Suc (find_chr xs c))"

definition rfind_chr :: "string \<Rightarrow> char \<Rightarrow> nat option" where
  "rfind_chr s c = map_option (\<lambda>i. length s - 1 - i) (find_chr (rev s) c)"

text \<open>The slice \<open>s[i:j]\<close> for \<open>0 \<le> i\<close> and \<open>0 \<le> j\<close>.\<close>

definition slice :: "string \<Rightarrow> nat \<Rightarrow> nat \<Rightarrow> string" where
  "slice s i j = take (j - i) (drop i s)"

text \<open>
  The three patterns of strategy 2 of \<open>extract_json_from_text\<close>:
  \<^verbatim>\<open>```json\s*([\s\S]*?)\s*```\<close>, \<^verbatim>\<open>```\s*([\s\S]*?)\s*```\<close> and
  \<^verbatim>\<open>`([\s\S]*?)`\<close>.
\<close>

definition fence_json_pattern :: rx where
  \<open>fence_json_pattern = seq [Str ''```json'', ws, Grp 1 (LazyStar AnyChar), ws, Str ''```'']\<close>

definition fence_pattern :: rx where
  \<open>fence_pattern = seq [Str ''```'', ws, Grp 1 (LazyStar AnyChar), ws, Str ''```'']\<close>

definition inline_pattern :: rx where
  \<open>inline_pattern = seq [Chr backtick, Grp 1 (LazyStar AnyChar), Chr backtick]\<close>

text \<open>
  The two nested loops of strategy 2: the first match, over the patterns in order and
  the matches of a pattern from the left, whose stripped text starts with a brace or a
  bracket.
\<close>

fun first_json_match :: "string list \<Rightarrow> string option" where
  "first_json_match [] = None"
| "first_json_match (m # ms) =
     (let m' = strip m
      in if startswith m' (CHR ''{'') \<or> startswith m' (CHR ''['') then Some m'
         else first_json_match ms)"

fun first_json_block :: "rx list \<Rightarrow> string \<Rightarrow> string option" where
  "first_json_block [] text = None"
| "first_json_block (pattern # patterns) text =
     (case first_json_match (findall pattern text) of
        Some m \<Rightarrow> Some m
      | None \<Rightarrow> first_json_block patterns text)"

text \<open>Strategies 3 and 4: from the first opening to the last closing delimiter.\<close>

definition between :: "string \<Rightarrow> char \<Rightarrow> char \<Rightarrow> string option" where
  "between text opn cls =
     (case (find_chr text opn, rfind_chr text cls) of
        (Some start, Some end) \<Rightarrow>
          if end > start then Some (slice text start (end + 1)) else None
      | _ \<Rightarrow> None)"

text \<open>\<open>extract_json_from_text\<close>.\<close>

definition extract_json_from_text :: "string \<Rightarrow> string option" where
  "extract_json_from_text text0 =
     (if text0 = [] then None
      else let text = strip text0
           in if startswith text (CHR ''{'') \<and> endswith text (CHR ''}'') then Some text
              else if startswith text (CHR ''['') \<and> endswith text (CHR '']'') then Some text
              else case first_json_block
                          [fence_json_pattern, fence_pattern, inline_pattern] text of
                     Some m \<Rightarrow> Some m
                   | None \<Rightarrow>
                       (case between text (CHR ''{'') (CHR ''}'') of
                          Some j \<Rightarrow> Some j
                        | None \<Rightarrow> between text (CHR ''['') (CHR '']'')))"

text \<open>
  The classes of \<open>fix_common_json_errors\<close>: the control characters
  \<open>[\x00-\x1f\x7f-\x9f]\<close>, \<open>[a-zA-Z_]\<close>, \<open>[a-zA-Z0-9_]\<close>, and \<open>\w\<close> on code points below
  256 (the alphanumeric characters of Unicode and the underscore).
\<close>

definition is_control :: "char \<Rightarrow> bool" where
  "is_control c = (let n = (of_char c :: nat) in n \<le> 31 \<or> (127 \<le> n \<and> n \<le> 159))"

definition is_ident_start :: "char \<Rightarrow> bool" where
  "is_ident_start c =
     (let n = (of_char c :: nat) in (97 \<le> n \<and> n \<le> 122) \<or> (65 \<le> n \<and> n \<le> 90) \<or> n = 95)"

definition is_ident_char :: "char \<Rightarrow> bool" where
  "is_ident_char c =
     (let n = (of_char c :: nat)
      in (97 \<le> n \<and> n \<le> 122) \<or> (65 \<le> n \<and> n \<le> 90) \<or> (48 \<le> n \<and> n \<le> 57) \<or> n = 95)"

definition is_word_char :: "char \<Rightarrow> bool" where
  "is_word_char c =
     (let n = (of_char c :: nat)
      in is_ident_char c \<or> n = 170 \<or> n = 178 \<or> n = 179 \<or> n = 181 \<or> n = 185 \<or> n = 186
         \<or> (188 \<le> n \<and> n \<le> 190) \<or> (192 \<le> n \<and> n \<le> 214) \<or> (216 \<le> n \<and> n \<le> 246)
         \<or> 248 \<le> n)"

text \<open>
  The patterns of \<open>fix_common_json_errors\<close>: \<^verbatim>\<open>,\s*}\<close>, \<^verbatim>\<open>,\s*]\<close>,
  \<^verbatim>\<open>(\{|\,)\s*([a-zA-Z_][a-zA-Z0-9_]*)\s*:\<close>, \<^verbatim>\<open>'\w+':\<close> and
  \<^verbatim>\<open>'([^']+)':\<close>.
\<close>

definition comma_before :: "char \<Rightarrow> rx" where
  "comma_before c = seq [Chr (CHR '',''), ws, Chr c]"

definition unquoted_key_pattern :: rx where
  "unquoted_key_pattern =
     seq [Grp 1 (Alt (Chr (CHR ''{'')) (Chr (CHR '',''))), ws,
          Grp 2 (Seq (Cls is_ident_start) (Star (Cls is_ident_char))), ws, Chr (CHR '':'')]"

definition single_quoted_word_pattern :: rx where
  "single_quoted_word_pattern =
     seq [Chr squote, Plus (Cls is_word_char), Chr squote, Chr (CHR '':'')]"

definition single_quoted_key_pattern :: rx where
  "single_quoted_key_pattern =
     seq [Chr squote, Grp 1 (Plus (Cls (\<lambda>c. c \<noteq> squote))), Chr squote, Chr (CHR '':'')]"

text \<open>\<open>fix_common_json_errors\<close>.\<close>

definition fix_common_json_errors :: "string \<Rightarrow> string" where
  "fix_common_json_errors json_str0 =
     (if json_str0 = [] then json_str0
      else let json_str1 = re_sub (Cls is_control) (\<lambda>m. '' '') json_str0;
               json_str2 = re_sub (comma_before (CHR ''}'')) (\<lambda>m. ''}'') json_str1;
               json_str3 = re_sub (comma_before (CHR '']'')) (\<lambda>m. '']'') json_str2;
               json_str4 = re_sub unquoted_key_pattern
                             (\<lambda>m. match_group m 1 @ [dquote] @ match_group m 2 @ [dquote] @ '':'') json_str3
           in if re_search single_quoted_word_pattern json_str4 \<noteq> None
              then re_sub single_quoted_key_pattern
                     (\<lambda>m. [dquote] @ match_group m 1 @ [dquote] @ '':'') json_str4
              else json_str4)"

text \<open>
  The scan of \<open>repair_truncated_json\<close> for an open string: the flags \<open>in_string\<close> and
  \<open>escaped\<close> are the state of the loop, the result is \<open>in_string\<close> at the end.
\<close>

fun scan_in_string :: "string \<Rightarrow> bool \<Rightarrow> bool \<Rightarrow> bool" where
  "scan_in_string [] in_string escaped = in_string"
| "scan_in_string (char # rest) in_string escaped =
     (if escaped then scan_in_string rest in_string False
      else if char = backslash then scan_in_string rest in_string True
      else if char = dquote then scan_in_string rest (\<not> in_string) escaped
      else scan_in_string rest in_string escaped)"

text \<open>The pattern \<^verbatim>\<open>,\s*$\<close>.\<close>

definition trailing_comma_pattern :: rx where
  "trailing_comma_pattern = seq [Chr (CHR '',''), ws, Eol]"

text \<open>
  \<open>repair_truncated_json\<close>.  The two differences are integers; Python's \<open>c * n\<close> is
  the empty string for \<open>n \<le> 0\<close>.
\<close>

definition repair_truncated_json :: "string \<Rightarrow> string" where
  "repair_truncated_json json_str0 =
     (if json_str0 = [] then json_str0
      else let open_braces = int (count_list json_str0 (CHR ''{''))
                               - int (count_list json_str0 (CHR ''}''));
               open_brackets = int (count_list json_str0 (CHR ''[''))
                                 - int (count_list json_str0 (CHR '']''));
               in_string = scan_in_string json_str0 False False;
               json_str1 = (if in_string then json_str0 @ [dquote] else json_str0);
               json_str2 = re_sub trailing_comma_pattern (\<lambda>m. []) json_str1
           in json_str2 @ replicate (nat open_brackets) (CHR '']'')
                        @ replicate (nat open_braces) (CHR ''}''))"

text \<open>
  A schema class, as \<open>safe_parse_json\<close> uses it: pydantic's \<open>model_validate\<close> (\<open>None\<close>
  when it raises) and the salvage that \<open>recover_truncated_output\<close> selects for the class
  (\<open>None\<close> when it finds nothing or raises).  The value \<open>safe_parse_json\<close> returns on
  success is the parsed document when no class is given and a model of the class
  otherwise.
\<close>

record 'm schema =
  model_validate :: "json \<Rightarrow> 'm option"
  recover_truncated_output :: "string \<Rightarrow> 'm option"

datatype 'm parsed = Data json | Model 'm

text \<open>
  One \<open>try\<close> block of \<open>safe_parse_json\<close>: \<open>json.loads\<close> (a parameter; \<open>None\<close> when it
  raises), then the validation when a class is given; \<open>None\<close> when either raises.
\<close>

definition try_parse ::
  "(string \<Rightarrow> json option) \<Rightarrow> 'm schema option \<Rightarrow> string \<Rightarrow> 'm parsed option" where
  "try_parse loads model_class json_str =
     (case loads json_str of
        None \<Rightarrow> None
      | Some d \<Rightarrow>
          (case model_class of
             None \<Rightarrow> Some (Data d)
           | Some cls \<Rightarrow> map_option Model (model_validate cls d)))"

text \<open>
  \<open>safe_parse_json\<close>.  The pair \<open>(success, result_or_error)\<close> is a sum: \<open>Inl\<close> the error
  text, \<open>Inr\<close> the result.
\<close>

definition safe_parse_json ::
  "(string \<Rightarrow> json option) \<Rightarrow> 'm schema option \<Rightarrow> string \<Rightarrow> string + 'm parsed" where
  "safe_parse_json loads model_class text =
     (if text = [] then Inl ''Empty input''
      else case extract_json_from_text text of
        None \<Rightarrow> Inl ''No JSON found in text''
      | Some json_str \<Rightarrow>
          if json_str = [] then Inl ''No JSON found in text''
          else (case try_parse loads model_class json_str of
            Some res \<Rightarrow> Inr res
          | None \<Rightarrow>
              (let fixed_json = fix_common_json_errors json_str
               in case try_parse loads model_class fixed_json of
                 Some res \<Rightarrow> Inr res
               | None \<Rightarrow>
                   (let repaired_json = repair_truncated_json fixed_json
                    in case try_parse loads model_class repaired_json of
                      Some res \<Rightarrow> Inr res
                    | None \<Rightarrow>
                        (case model_class of
                           None \<Rightarrow> Inl ''Failed to parse JSON after all attempts''
                         | Some cls \<Rightarrow>
                             (case recover_truncated_output cls text of
                                Some recovered \<Rightarrow> Inr (Model recovered)
                              | None \<Rightarrow> Inl ''Failed to parse JSON after all attempts''))))))"

text \<open>
  A task output of the generator: its raw text, its validated model when it has one,
  and its JSON dictionary when it has one.
\<close>

record 'm TaskOutput =
  out_raw :: string
  out_pydantic :: "'m option"
  out_json_dict :: "(string \<times> json) list option"

text \<open>
  \<open>PentagonCrew._extract_output\<close>.  The data of a result is a model (its dump) or a
  parsed document.
\<close>

definition extract_output ::
  "(string \<Rightarrow> json option) \<Rightarrow> 'm TaskOutput \<Rightarrow> 'm schema option \<Rightarrow> 'm parsed StageResult"
  where
  "extract_output loads task_output schema_class =
     (let result = \<lparr>success = False, data = None, raw = out_raw task_output, error = None\<rparr>
      in case out_pydantic task_output of
           Some m \<Rightarrow> result\<lparr>data := Some (Model m), success := True\<rparr>
         | None \<Rightarrow>
             (if out_json_dict task_output \<noteq> None \<and> out_json_dict task_output \<noteq> Some []
              then result\<lparr>data := map_option (\<lambda>d. Data (JDict d)) (out_json_dict task_output),
                          success := True\<rparr>
              else (case safe_parse_json loads schema_class (raw result) of
                      Inr p \<Rightarrow> result\<lparr>data := Some p, success := True\<rparr>
                    | Inl e \<Rightarrow> result\<lparr>error := Some e\<rparr>)))"

section \<open>The stage schemas (schemas.py)\<close>

record UserStory =
  us_id :: string
  us_title :: string
  us_description :: string
  us_priority :: string

record UserStoriesOutput =
  stories :: "UserStory list"
  uso_summary :: string

record APIEndpoint =
  ep_method :: string
  ep_path :: string
  ep_description :: string

record DataModel =
  dm_name :: string
  dm_fields :: "string list"

record SystemDesign =
  models :: "DataModel list"
  endpoints :: "APIEndpoint list"
  architecture_notes :: string

record CodeFile =
  cf_filename :: string
  cf_content :: string
  cf_description :: string

record BackendCode =
  bc_files :: "CodeFile list"
  bc_setup_instructions :: string

record FrontendCode =
  fc_files :: "CodeFile list"
  fc_setup_instructions :: string








section \<open>Schema-specific salvage (schemas.py)\<close>
















section \<open>The context manager (crew.py)\<close>

text \<open>
  \<open>sub in s\<close> for strings, \<open>s.startswith(prefix)\<close> is \<open>prefix\<close> of the list library, and
  \<open>s.split("\n")\<close>.
\<close>

fun contains :: "string \<Rightarrow> string \<Rightarrow> bool" where
  "contains sub [] = (sub = [])"
| "contains sub (c # cs) = (prefix sub (c # cs) \<or> contains sub cs)"

fun split_lines :: "string \<Rightarrow> string list" where
  "split_lines [] = [[]]"
| "split_lines (c # cs) =
     (if c = newline then [] # split_lines cs
      else (case split_lines cs of [] \<Rightarrow> [[c]] | l # ls \<Rightarrow> (c # l) # ls))"

text \<open>
  \<open>ContextManager\<close>: the requirement text and, for each stage, the stored data or
  \<open>None\<close>.  The stored data of a stage is a dump of its schema class.
\<close>

record ContextManager =
  vibe_prompt :: string
  user_stories :: "UserStoriesOutput option"
  system_design :: "SystemDesign option"
  backend_code :: "BackendCode option"
  frontend_code :: "FrontendCode option"
  test_report :: "TestReport option"

definition ContextManager_init :: ContextManager where
  "ContextManager_init =
     \<lparr>vibe_prompt = '''', user_stories = None, system_design = None, backend_code = None,
      frontend_code = None, test_report = None\<rparr>"

text \<open>
  The five \<open>update_*\<close> methods.  The argument is the result dictionary of the stage or
  \<open>None\<close>; \<open>if data and data.get("success")\<close> holds for a result marked successful.
\<close>

definition update_user_stories ::
  "ContextManager \<Rightarrow> UserStoriesOutput StageResult option \<Rightarrow> ContextManager" where
  "update_user_stories self d =
     (case d of Some r \<Rightarrow> if success r then self\<lparr>user_stories := data r\<rparr> else self
      | None \<Rightarrow> self)"

definition update_system_design ::
  "ContextManager \<Rightarrow> SystemDesign StageResult option \<Rightarrow> ContextManager" where
  "update_system_design self d =
     (case d of Some r \<Rightarrow> if success r then self\<lparr>system_design := data r\<rparr> else self
      | None \<Rightarrow> self)"

definition update_backend_code ::
  "ContextManager \<Rightarrow> BackendCode StageResult option \<Rightarrow> ContextManager" where
  "update_backend_code self d =
     (case d of Some r \<Rightarrow> if success r then self\<lparr>backend_code := data r\<rparr> else self
      | None \<Rightarrow> self)"

definition update_frontend_code ::
  "ContextManager \<Rightarrow> FrontendCode StageResult option \<Rightarrow> ContextManager" where
  "update_frontend_code self d =
     (case d of Some r \<Rightarrow> if success r then self\<lparr>frontend_code := data r\<rparr> else self
      | None \<Rightarrow> self)"

definition update_test_report ::
  "ContextManager \<Rightarrow> TestReport StageResult option \<Rightarrow> ContextManager" where
  "update_test_report self d =
     (case d of Some r \<Rightarrow> if success r then self\<lparr>test_report := data r\<rparr> else self
      | None \<Rightarrow> self)"

text \<open>\<open>_format_user_stories_summary\<close>.\<close>

definition format_user_stories_summary :: "ContextManager \<Rightarrow> string" where
  "format_user_stories_summary self =
     (case user_stories self of
        None \<Rightarrow> ''No user stories available.''
      | Some us \<Rightarrow>
          join [newline]
            ([''## User Stories:'']
             @ map (\<lambda>story. ''- ['' @ us_id story @ ''] ('' @ us_priority story @ '') ''
                              @ us_title story @ '': '' @ us_description story) (stories us)
             @ (if uso_summary us \<noteq> [] then [[newline] @ ''Summary: '' @ uso_summary us]
                else [])))"

text \<open>\<open>_format_system_design_summary\<close>.\<close>

definition format_system_design_summary :: "ContextManager \<Rightarrow> string" where
  "format_system_design_summary self =
     (case system_design self of
        None \<Rightarrow> ''No system design available.''
      | Some sd \<Rightarrow>
          join [newline]
            ([''## System Design:'']
             @ (if models sd \<noteq> []
                then [[newline] @ ''### Data Models:'']
                     @ map (\<lambda>model. ''- '' @ dm_name model @ '': ''
                                @ (if dm_fields model \<noteq> [] then join '', '' (dm_fields model)
                                   else ''no fields'')) (models sd)
                else [])
             @ (if endpoints sd \<noteq> []
                then [[newline] @ ''### API Endpoints:'']
                     @ map (\<lambda>endpoint. ''- '' @ ep_method endpoint @ '' '' @ ep_path endpoint
                                @ '': '' @ ep_description endpoint) (endpoints sd)
                else [])
             @ (if architecture_notes sd \<noteq> []
                then [[newline] @ ''Notes: '' @ architecture_notes sd] else [])))"

text \<open>
  \<open>_format_backend_endpoints_summary\<close>: the decorator lines of the files whose name
  contains \<open>main\<close> or \<open>route\<close>, the setup text, and the list of files when neither gave
  a line.
\<close>

definition route_lines :: "CodeFile \<Rightarrow> string list" where
  "route_lines file_info =
     (if contains ''main'' (lower (cf_filename file_info))
         \<or> contains ''route'' (lower (cf_filename file_info))
      then map (\<lambda>line. ''- '' @ line)
             (filter (\<lambda>line. prefix ''@app.'' line \<or> prefix ''@router.'' line)
                (map strip (split_lines (cf_content file_info))))
      else [])"

definition format_backend_endpoints_summary :: "ContextManager \<Rightarrow> string" where
  "format_backend_endpoints_summary self =
     (case backend_code self of
        None \<Rightarrow> ''No backend endpoints available.''
      | Some bc \<Rightarrow>
          (let summary_parts =
                 [''## Backend API Endpoints:'']
                 @ concat (map route_lines (bc_files bc))
                 @ (if bc_setup_instructions bc \<noteq> []
                    then [[newline] @ ''Setup: '' @ bc_setup_instructions bc] else [])
           in join [newline]
                (if length summary_parts = 1
                 then summary_parts @ [[newline] @ ''Backend files:'']
                      @ map (\<lambda>file_info. ''- '' @ cf_filename file_info @ '': ''
                                 @ cf_description file_info) (bc_files bc)
                 else summary_parts)))"

text \<open>\<open>_format_backend_code_full\<close> and \<open>_format_frontend_code_full\<close>.\<close>

definition code_file_parts :: "CodeFile \<Rightarrow> string list" where
  \<open>code_file_parts file_info =
     [[newline] @ ''### '' @ cf_filename file_info]
     @ (if cf_description file_info \<noteq> [] then [''Description: '' @ cf_description file_info]
        else [])
     @ [''```'' @ [newline] @ cf_content file_info @ [newline] @ ''```'']\<close>

definition format_backend_code_full :: "ContextManager \<Rightarrow> string" where
  "format_backend_code_full self =
     (case backend_code self of
        None \<Rightarrow> ''No backend code available.''
      | Some bc \<Rightarrow>
          join [newline]
            ([''## Backend Code:'']
             @ concat (map code_file_parts (bc_files bc))
             @ (if bc_setup_instructions bc \<noteq> []
                then [[newline] @ ''Setup: '' @ bc_setup_instructions bc] else [])))"

definition format_frontend_code_full :: "ContextManager \<Rightarrow> string" where
  "format_frontend_code_full self =
     (case frontend_code self of
        None \<Rightarrow> ''No frontend code available.''
      | Some fc \<Rightarrow>
          join [newline]
            ([''## Frontend Code:'']
             @ concat (map code_file_parts (fc_files fc))
             @ (if fc_setup_instructions fc \<noteq> []
                then [[newline] @ ''Setup: '' @ fc_setup_instructions fc] else [])))"

text \<open>\<open>_format_qa_feedback\<close>.\<close>

definition failed_test_parts :: "TestCase \<Rightarrow> string list" where
  "failed_test_parts tc =
     [''  - '' @ tc_id tc @ '': '' @ tc_description tc]
     @ (if tc_notes tc \<noteq> [] then [''    Notes: '' @ tc_notes tc] else [])"

definition format_qa_feedback :: "ContextManager \<Rightarrow> string \<Rightarrow> string" where
  "format_qa_feedback self agent_name =
     (case test_report self of
        None \<Rightarrow> ''''
      | Some tr \<Rightarrow>
          (let agent_issues = dict_get (issues_by_agent tr) agent_name [];
               failed_tests =
                 filter (\<lambda>tc. lower (tc_status tc) = ''fail''
                              \<and> tc_responsible_agent tc = agent_name) (test_cases tr);
               feedback_parts =
                 (if agent_issues \<noteq> []
                  then [''Issues found for your component:'']
                       @ map (\<lambda>issue. ''  - '' @ issue) agent_issues
                  else [])
                 @ (if failed_tests \<noteq> []
                    then [[newline] @ ''Failed test cases:'']
                         @ concat (map failed_test_parts failed_tests)
                    else [])
                 @ (if recommendations tr \<noteq> []
                    then [[newline] @ ''Recommendations:'']
                         @ map (\<lambda>rec. ''  - '' @ rec) (recommendations tr)
                    else [])
           in if feedback_parts \<noteq> [] then join [newline] feedback_parts else ''''))"

text \<open>\<open>_format_previous_output_summary\<close>.\<close>

definition format_previous_output_summary :: "ContextManager \<Rightarrow> string \<Rightarrow> string" where
  "format_previous_output_summary self agent_name =
     (if agent_name = AGENT_PRODUCT_OWNER \<and> user_stories self \<noteq> None
      then [newline] @ ''## Your Previous User Stories (to be updated):'' @ [newline]
           @ format_user_stories_summary self
      else if agent_name = AGENT_ARCHITECT \<and> system_design self \<noteq> None
      then [newline] @ ''## Your Previous System Design (to be updated):'' @ [newline]
           @ format_system_design_summary self
      else if agent_name = AGENT_BACKEND_ENGINEER \<and> backend_code self \<noteq> None
      then [newline] @ ''## Your Previous Backend Files (to be updated): ''
           @ join '', '' (map cf_filename (case backend_code self of
                                             Some bc \<Rightarrow> bc_files bc | None \<Rightarrow> []))
      else if agent_name = AGENT_FRONTEND_ENGINEER \<and> frontend_code self \<noteq> None
      then [newline] @ ''## Your Previous Frontend Files (to be updated): ''
           @ join '', '' (map cf_filename (case frontend_code self of
                                             Some fc \<Rightarrow> fc_files fc | None \<Rightarrow> []))
      else '''')"

text \<open>
  The part every \<open>get_context_for_*\<close> method adds when \<open>is_iteration\<close> holds: the
  previous output of the agent and the QA feedback for it, each when it is not empty.
\<close>

definition iteration_parts :: "ContextManager \<Rightarrow> string \<Rightarrow> string list" where
  "iteration_parts self agent_name =
     (let prev_output = format_previous_output_summary self agent_name;
          qa_feedback = format_qa_feedback self agent_name
      in (if prev_output \<noteq> [] then [prev_output] else [])
         @ (if qa_feedback \<noteq> []
            then [[newline] @ ''## QA Feedback (Please address these issues):'' @ [newline]
                  @ qa_feedback]
            else []))"

text \<open>The \<open>get_context_for_*\<close> methods of the five stages.\<close>

definition get_context_for_product_owner :: "ContextManager \<Rightarrow> bool \<Rightarrow> string" where
  "get_context_for_product_owner self is_iteration =
     join [newline, newline]
       ([''## Project Requirements:'' @ [newline] @ vibe_prompt self]
        @ (if is_iteration then iteration_parts self AGENT_PRODUCT_OWNER else []))"

definition get_context_for_architect :: "ContextManager \<Rightarrow> bool \<Rightarrow> string" where
  "get_context_for_architect self is_iteration =
     join [newline, newline]
       ([format_user_stories_summary self]
        @ (if is_iteration then iteration_parts self AGENT_ARCHITECT else []))"

definition get_context_for_backend_engineer :: "ContextManager \<Rightarrow> bool \<Rightarrow> string" where
  "get_context_for_backend_engineer self is_iteration =
     join [newline, newline]
       ([format_user_stories_summary self, format_system_design_summary self]
        @ (if is_iteration then iteration_parts self AGENT_BACKEND_ENGINEER else []))"

definition get_context_for_frontend_engineer :: "ContextManager \<Rightarrow> bool \<Rightarrow> string" where
  "get_context_for_frontend_engineer self is_iteration =
     join [newline, newline]
       ([format_user_stories_summary self, format_system_design_summary self,
         format_backend_endpoints_summary self]
        @ (if is_iteration then iteration_parts self AGENT_FRONTEND_ENGINEER else []))"

definition get_context_for_qa_engineer :: "ContextManager \<Rightarrow> string" where
  "get_context_for_qa_engineer self =
     join [newline, newline]
       [format_user_stories_summary self, format_system_design_summary self,
        format_backend_code_full self, format_frontend_code_full self]"

section \<open>The dependency closure\<close>

text \<open>The downstream agents of one agent, as a set (empty for a name that is no key).\<close>

definition downstream :: "string \<Rightarrow> string set" where
  "downstream a = (case map_of AGENT_DEPENDENCIES a of Some deps \<Rightarrow> set deps | None \<Rightarrow> {})"

lemmas agent_names =
  AGENT_PRODUCT_OWNER_def AGENT_ARCHITECT_def AGENT_BACKEND_ENGINEER_def
  AGENT_FRONTEND_ENGINEER_def

lemma add_downstream_eq:
  "add_downstream agents acc = acc \<union> (\<Union>a\<in>set agents. downstream a)"
  by (induction agents arbitrary: acc) (auto simp: downstream_def split: option.splits)

lemma downstream_known: "a \<in> downstream b \<Longrightarrow> a \<in> set execution_order"
  by (auto simp: downstream_def AGENT_DEPENDENCIES_def execution_order_def
      split: option.splits if_splits)

lemma downstream_trans: "a \<in> downstream b \<Longrightarrow> b \<in> downstream c \<Longrightarrow> a \<in> downstream c"
  by (auto simp: downstream_def AGENT_DEPENDENCIES_def agent_names
      split: option.splits if_splits)

lemma set_add_agent_dependencies:
  "set (add_agent_dependencies agents) =
     (set agents \<union> (\<Union>a\<in>set agents. downstream a)) \<inter> set execution_order"
  by (auto simp: add_agent_dependencies_def add_downstream_eq)

lemma add_agent_dependencies_idem:
  "add_agent_dependencies (add_agent_dependencies S) = add_agent_dependencies S"
proof -
  let ?c = "add_agent_dependencies S"
  have "\<And>x. x \<in> set execution_order \<Longrightarrow>
          (x \<in> add_downstream ?c (set ?c)) = (x \<in> add_downstream S (set S))"
    unfolding add_downstream_eq set_add_agent_dependencies
    by (auto dest: downstream_trans)
  then show "add_agent_dependencies ?c = ?c"
    unfolding add_agent_dependencies_def [of ?c] Let_def
    unfolding add_agent_dependencies_def [of S] Let_def
    by (intro filter_cong) (auto simp flip: add_agent_dependencies_def)
qed

lemma add_agent_dependencies_mono:
  "set S \<subseteq> set T \<Longrightarrow> set (add_agent_dependencies S) \<subseteq> set (add_agent_dependencies T)"
  unfolding set_add_agent_dependencies by blast



lemma add_agent_dependencies_extensive:
  "a \<in> set S \<Longrightarrow> a \<in> set valid_agents \<Longrightarrow>
     insert a (downstream a) \<subseteq> set (add_agent_dependencies S)"
  unfolding set_add_agent_dependencies
  by (auto simp: valid_agents_def execution_order_def dest: downstream_known)

text \<open>
  C1.  The closure computed by \<open>_add_agent_dependencies\<close> is idempotent, it is
  monotonic in the set of the agents given, and it maps the empty list to the empty
  list.  All three hold for every list of names, known or not.
\<close>

theorem closure_idempotent_monotonic_empty:
  "add_agent_dependencies (add_agent_dependencies S) = add_agent_dependencies S
   \<and> (set S \<subseteq> set T \<longrightarrow> set (add_agent_dependencies S) \<subseteq> set (add_agent_dependencies T))
   \<and> add_agent_dependencies [] = []"
proof (intro conjI impI)
  show "add_agent_dependencies (add_agent_dependencies S) = add_agent_dependencies S"
    by (rule add_agent_dependencies_idem)
next
  assume "set S \<subseteq> set T"
  then show "set (add_agent_dependencies S) \<subseteq> set (add_agent_dependencies T)"
    by (rule add_agent_dependencies_mono)
next
  show "add_agent_dependencies [] = []"
    by (simp add: add_agent_dependencies_def execution_order_def)
qed

lemma closure_architect:
  "add_agent_dependencies [''architect'']
     = [''architect'', ''backend_engineer'', ''frontend_engineer'']"
  by (simp add: add_agent_dependencies_def execution_order_def AGENT_DEPENDENCIES_def
      agent_names)

theorem closure_idempotent_monotonic_empty_witness:
  "add_agent_dependencies (add_agent_dependencies [''architect''])
     = add_agent_dependencies [''architect'']
   \<and> set [''architect''] \<subseteq> set [''architect'', ''product_owner'']
   \<and> set (add_agent_dependencies [''architect''])
       \<subseteq> set (add_agent_dependencies [''architect'', ''product_owner''])
   \<and> add_agent_dependencies [''architect'']
       = [''architect'', ''backend_engineer'', ''frontend_engineer'']"
proof -
  have sub: "set [''architect''] \<subseteq> set [''architect'', ''product_owner'']" by simp
  from closure_idempotent_monotonic_empty [of "[''architect'']" "[''architect'', ''product_owner'']"]
    sub closure_architect show ?thesis by blast
qed

section \<open>The enumerated fields of the QA schema\<close>

lemma validate_responsible_agent_range:
  "validate_responsible_agent v \<in>
     {''product_owner'', ''architect'', ''backend_engineer'', ''frontend_engineer'', ''''}"
  by (simp add: validate_responsible_agent_def Let_def)

lemma validate_overall_status_range:
  "validate_overall_status v \<in> {''pass'', ''fail'', ''needs_review''}"
  by (simp add: validate_overall_status_def Let_def)

lemma replace_ed_failed: "replace ''ed'' '''' ''failed'' = ''fail''"
  by simp

lemma replace_ed_skipped: "replace ''ed'' '''' ''skipped'' = ''skipp''"
  by simp

lemma validate_status_range:
  "validate_status v \<in> {''pass'', ''fail'', ''skip'', ''skipp''}"
  unfolding validate_status_def Let_def
  using replace_ed_failed replace_ed_skipped by auto

lemma strip_lower_skipped: "strip (lower ''skipped'') = ''skipped''"
  by (simp add: strip_def lower_def lower_char_def isspace_def)

text \<open>
  C10.  The validator of \<open>TestCase.status\<close> at the input \<open>skipped\<close>: it removes the
  substring \<open>ed\<close> and returns \<open>skipp\<close>, which is none of \<open>pass\<close>, \<open>fail\<close>, \<open>skip\<close>.
\<close>

theorem validate_status_skipped:
  "validate_status ''skipped'' = ''skipp''
   \<and> validate_status ''skipped'' \<notin> {''pass'', ''fail'', ''skip''}"
  by (simp add: validate_status_def Let_def strip_lower_skipped)

section \<open>The planner\<close>


lemma set_set_add: "set (set_add x xs) = insert x (set xs)"
  by (auto simp: set_add_def)

lemma set_add_issue_agents:
  "set (add_issue_agents kvs acc) =
     set acc \<union> {agent. \<exists>issues. (agent, issues) \<in> set kvs \<and> issues \<noteq> []}"
  by (induction kvs acc rule: add_issue_agents.induct) (auto simp: set_set_add)

lemma set_add_failed_agents:
  "set (add_failed_agents tcs acc) =
     set acc \<union> {tc_responsible_agent tc | tc.
        tc \<in> set tcs \<and> lower (tc_status tc) = ''fail'' \<and> tc_responsible_agent tc \<noteq> []}"
  by (induction tcs acc rule: add_failed_agents.induct) (auto simp: set_set_add)

text \<open>
  The owners of the failing checks of a report: the agents with a non-empty entry in
  \<open>issues_by_agent\<close> and the responsible agents named by the failed test cases.
\<close>

lemma set_get_agents_with_issues:
  "set (get_agents_with_issues_from_report (Some r)) =
     {agent. \<exists>issues. (agent, issues) \<in> set (issues_by_agent r) \<and> issues \<noteq> []}
     \<union> {tc_responsible_agent tc | tc.
          tc \<in> set (test_cases r) \<and> lower (tc_status tc) = ''fail''
          \<and> tc_responsible_agent tc \<noteq> []}"
  by (simp add: get_agents_with_issues_from_report_def set_add_failed_agents
      set_add_issue_agents)






text \<open>
  C5 (as the code has it).  When the stored report does not pass the QA check (its
  overall status is not \<open>pass\<close>, or a test case failed), the fallback decision is the
  deterministic rule: the agents to rerun are the closure of the owners of the failing
  checks (the agents with a non-empty \<open>issues_by_agent\<close> entry and the responsible agents
  of the failed test cases), \<open>should_continue\<close> is true exactly when there is such an
  owner, and every owner that is a known agent is in the rerun list together with all
  agents downstream of it.  When the stored report passes the QA check, the fallback
  returns \<open>should_continue = False\<close> and no agent to rerun, whatever \<open>issues_by_agent\<close>
  holds.
\<close>

theorem fallback_decision_rule:
  "(lower (overall_status r) \<noteq> ''pass''
      \<or> list_ex (\<lambda>tc. lower (tc_status tc) = ''fail'') (test_cases r) \<longrightarrow>
     (\<exists>d. get_fallback_decision (Some r) = Inr d
        \<and> agents_to_rerun d
            = add_agent_dependencies (get_agents_with_issues_from_report (Some r))
        \<and> (truthy (should_continue d) \<longleftrightarrow> get_agents_with_issues_from_report (Some r) \<noteq> [])
        \<and> set (get_agents_with_issues_from_report (Some r)) =
             {agent. \<exists>issues. (agent, issues) \<in> set (issues_by_agent r) \<and> issues \<noteq> []}
             \<union> {tc_responsible_agent tc | tc.
                  tc \<in> set (test_cases r) \<and> lower (tc_status tc) = ''fail''
                  \<and> tc_responsible_agent tc \<noteq> []}
        \<and> (\<forall>S \<in> set (get_agents_with_issues_from_report (Some r)).
              S \<in> set valid_agents \<longrightarrow> insert S (downstream S) \<subseteq> set (agents_to_rerun d))))
   \<and> (lower (overall_status r) = ''pass''
        \<and> \<not> list_ex (\<lambda>tc. lower (tc_status tc) = ''fail'') (test_cases r) \<longrightarrow>
       get_fallback_decision (Some r)
         = Inr \<lparr>should_continue = JBool False, agents_to_rerun = [],
                reasoning = JStr ''QA passed, no issues found'', iteration_goal = JStr ''''\<rparr>)"
proof -
  let ?owners = "get_agents_with_issues_from_report (Some r)"
  have A: "\<exists>d. get_fallback_decision (Some r) = Inr d
        \<and> agents_to_rerun d = add_agent_dependencies ?owners
        \<and> (truthy (should_continue d) \<longleftrightarrow> ?owners \<noteq> [])"
    if "lower (overall_status r) \<noteq> ''pass''
      \<or> list_ex (\<lambda>tc. lower (tc_status tc) = ''fail'') (test_cases r)"
  proof -
    from that have q: "check_qa_passed
        (Some \<lparr>success = True, data = Some r, raw = '''', error = None\<rparr>) = Inr False"
      by (auto simp: check_qa_passed_def)
    have e: "add_agent_dependencies [] = []"
      by (simp add: add_agent_dependencies_def execution_order_def)
    show ?thesis
      unfolding get_fallback_decision_def Let_def q ManagerDecision_init_def
      by (simp add: e)
  qed
  have B: "\<forall>S \<in> set ?owners. S \<in> set valid_agents \<longrightarrow>
             insert S (downstream S) \<subseteq> set (add_agent_dependencies ?owners)"
    using add_agent_dependencies_extensive [of _ ?owners] by blast
  have C: "get_fallback_decision (Some r)
         = Inr \<lparr>should_continue = JBool False, agents_to_rerun = [],
                reasoning = JStr ''QA passed, no issues found'', iteration_goal = JStr ''''\<rparr>"
    if "lower (overall_status r) = ''pass''
        \<and> \<not> list_ex (\<lambda>tc. lower (tc_status tc) = ''fail'') (test_cases r)"
  proof -
    from that have q: "check_qa_passed
        (Some \<lparr>success = True, data = Some r, raw = '''', error = None\<rparr>) = Inr True"
      by (auto simp: check_qa_passed_def)
    show ?thesis
      unfolding get_fallback_decision_def Let_def q ManagerDecision_init_def
      by simp
  qed
  from A B C set_get_agents_with_issues [of r] show ?thesis
    by (metis (no_types, lifting))
qed

text \<open>
  Scenario D: two failed test cases, both owned by the architect, and a report that does
  not pass.
\<close>

definition scenario_D_report :: TestReport where
  "scenario_D_report =
     \<lparr>overall_status = ''fail'',
      test_cases =
        [\<lparr>tc_id = ''TC001'', tc_description = ''models'', tc_status = ''fail'',
          tc_notes = '''', tc_responsible_agent = ''architect''\<rparr>,
         \<lparr>tc_id = ''TC002'', tc_description = ''endpoints'', tc_status = ''fail'',
          tc_notes = '''', tc_responsible_agent = ''architect''\<rparr>],
      tr_summary = '''', recommendations = [],
      issues_by_agent = [(''product_owner'', []), (''architect'', []),
                         (''backend_engineer'', []), (''frontend_engineer'', [])]\<rparr>"

lemma lower_fail: "lower ''fail'' = ''fail''"
  by (simp add: lower_def lower_char_def)

lemma lower_pass: "lower ''pass'' = ''pass''"
  by (simp add: lower_def lower_char_def)

lemma lower_needs_review: "lower ''needs_review'' = ''needs_review''"
  by (simp add: lower_def lower_char_def)

lemma scenario_D_owners:
  "get_agents_with_issues_from_report (Some scenario_D_report) = [''architect'']"
  by (simp add: get_agents_with_issues_from_report_def scenario_D_report_def lower_fail
      set_add_def)

theorem fallback_decision_rule_witness:
  "lower (overall_status scenario_D_report) \<noteq> ''pass''
   \<and> get_agents_with_issues_from_report (Some scenario_D_report) = [''architect'']
   \<and> (\<exists>d. get_fallback_decision (Some scenario_D_report) = Inr d
         \<and> agents_to_rerun d = [''architect'', ''backend_engineer'', ''frontend_engineer'']
         \<and> truthy (should_continue d)
         \<and> insert ''architect'' (downstream ''architect'') \<subseteq> set (agents_to_rerun d))"
proof -
  have h: "lower (overall_status scenario_D_report) \<noteq> ''pass''"
    by (simp add: scenario_D_report_def lower_fail)
  have v: "''architect'' \<in> set valid_agents"
    by (simp add: valid_agents_def agent_names)
  from fallback_decision_rule [of scenario_D_report] h
  obtain d where d: "get_fallback_decision (Some scenario_D_report) = Inr d"
      "agents_to_rerun d
         = add_agent_dependencies (get_agents_with_issues_from_report (Some scenario_D_report))"
      "truthy (should_continue d)
         \<longleftrightarrow> get_agents_with_issues_from_report (Some scenario_D_report) \<noteq> []"
      "\<forall>S \<in> set (get_agents_with_issues_from_report (Some scenario_D_report)).
          S \<in> set valid_agents \<longrightarrow> insert S (downstream S) \<subseteq> set (agents_to_rerun d)"
    by blast
  from d(2) have a: "agents_to_rerun d
      = [''architect'', ''backend_engineer'', ''frontend_engineer'']"
    by (simp only: scenario_D_owners closure_architect)
  from d(3) have t: "truthy (should_continue d)"
    by (simp add: scenario_D_owners)
  from d(4) v have i: "insert ''architect'' (downstream ''architect'') \<subseteq> set (agents_to_rerun d)"
    by (simp only: scenario_D_owners) simp
  from h scenario_D_owners d(1) a t i show ?thesis by blast
qed

text \<open>
  C5 as stated fails at two reports.  The first passes the QA check (overall status
  \<open>pass\<close>, no failed test case) and lists an issue for the architect: the rule gives the
  closure of the architect, the fallback returns no agent.  The second does not pass and
  lists an issue under the key \<open>qa_engineer\<close>, which is no stage of the dependency map:
  the fallback returns \<open>should_continue = True\<close> with an empty rerun list.
\<close>

theorem fallback_decision_rule_counterexample:
  "get_fallback_decision
     (Some \<lparr>overall_status = ''pass'', test_cases = [], tr_summary = '''',
            recommendations = [], issues_by_agent = [(''architect'', [''no auth model''])]\<rparr>)
     = Inr \<lparr>should_continue = JBool False, agents_to_rerun = [],
            reasoning = JStr ''QA passed, no issues found'', iteration_goal = JStr ''''\<rparr>
   \<and> add_agent_dependencies (get_agents_with_issues_from_report
        (Some \<lparr>overall_status = ''pass'', test_cases = [], tr_summary = '''',
            recommendations = [], issues_by_agent = [(''architect'', [''no auth model''])]\<rparr>))
     = [''architect'', ''backend_engineer'', ''frontend_engineer'']
   \<and> get_fallback_decision
     (Some \<lparr>overall_status = ''fail'', test_cases = [], tr_summary = '''',
            recommendations = [], issues_by_agent = [(''qa_engineer'', [''flaky test''])]\<rparr>)
     = Inr \<lparr>should_continue = JBool True, agents_to_rerun = [],
            reasoning = JStr ''Issues found for: qa_engineer'',
            iteration_goal = JStr ''Fix identified issues''\<rparr>"
  by (simp add: get_fallback_decision_def check_qa_passed_def lower_pass lower_fail
      ManagerDecision_init_def get_agents_with_issues_from_report_def set_add_def
      closure_architect add_agent_dependencies_def execution_order_def
      AGENT_DEPENDENCIES_def agent_names)

text \<open>
  C2 (as the code has it).  For a stored report with no failed test case, the fallback
  path returns a decision whose \<open>should_continue\<close> is true exactly when the overall
  status is not \<open>pass\<close> and some \<open>issues_by_agent\<close> entry is non-empty; so it is false
  whenever the report passes the QA check or names no issue.  The primary path does not
  look at the report: when the recovered proposal is a dictionary whose
  \<open>agents_to_rerun\<close> can be iterated (a list, a string, a dictionary, or the default
  when the key is absent), the decision carries the \<open>should_continue\<close> value of the
  proposal (false when the proposal has none).  In every other case (the recovery
  failed, the proposal is no dictionary, or \<open>agents_to_rerun\<close> cannot be iterated) the
  planner returns the fallback decision.
\<close>

theorem zero_failures_decision:
  "(\<not> list_ex (\<lambda>tc. lower (tc_status tc) = ''fail'') (test_cases r) \<longrightarrow>
      (\<exists>d. get_fallback_decision (Some r) = Inr d
         \<and> (truthy (should_continue d) \<longleftrightarrow>
              lower (overall_status r) \<noteq> ''pass''
              \<and> list_ex (\<lambda>kv. snd kv \<noteq> []) (issues_by_agent r))))
   \<and> (py_iter (dict_get parsed ''agents_to_rerun'' (JList [])) = Inr names \<longrightarrow>
      (\<exists>d. decide_from_parsed (Some r) (Inr (JDict parsed)) = Inr d
         \<and> should_continue d = dict_get parsed ''should_continue'' (JBool False)))
   \<and> (py_iter (dict_get parsed ''agents_to_rerun'' (JList [])) = Inl e \<longrightarrow>
        decide_from_parsed (Some r) (Inr (JDict parsed)) = get_fallback_decision (Some r))
   \<and> ((\<forall>p. result \<noteq> Inr (JDict p)) \<longrightarrow>
        decide_from_parsed (Some r) result = get_fallback_decision (Some r))"
proof -
  have A: "\<exists>d. get_fallback_decision (Some r) = Inr d
         \<and> (truthy (should_continue d) \<longleftrightarrow>
              lower (overall_status r) \<noteq> ''pass''
              \<and> list_ex (\<lambda>kv. snd kv \<noteq> []) (issues_by_agent r))"
    if nf: "\<not> list_ex (\<lambda>tc. lower (tc_status tc) = ''fail'') (test_cases r)"
  proof -
    from nf have "set (get_agents_with_issues_from_report (Some r))
        = {agent. \<exists>issues. (agent, issues) \<in> set (issues_by_agent r) \<and> issues \<noteq> []}"
      unfolding set_get_agents_with_issues by (auto simp: list_ex_iff)
    then have o: "get_agents_with_issues_from_report (Some r) \<noteq> []
        \<longleftrightarrow> list_ex (\<lambda>kv. snd kv \<noteq> []) (issues_by_agent r)"
      unfolding set_empty [symmetric] by (force simp: list_ex_iff)
    show ?thesis
    proof (cases "lower (overall_status r) = ''pass''")
      case True
      with nf have q: "check_qa_passed
          (Some \<lparr>success = True, data = Some r, raw = '''', error = None\<rparr>) = Inr True"
        by (simp add: check_qa_passed_def)
      show ?thesis
        unfolding get_fallback_decision_def Let_def q ManagerDecision_init_def
        using True by simp
    next
      case False
      then have q: "check_qa_passed
          (Some \<lparr>success = True, data = Some r, raw = '''', error = None\<rparr>) = Inr False"
        by (simp add: check_qa_passed_def)
      show ?thesis
        unfolding get_fallback_decision_def Let_def q ManagerDecision_init_def
        using False o by simp
    qed
  qed
  have B: "\<exists>d. decide_from_parsed (Some r) (Inr (JDict parsed)) = Inr d
         \<and> should_continue d = dict_get parsed ''should_continue'' (JBool False)"
    if "py_iter (dict_get parsed ''agents_to_rerun'' (JList [])) = Inr names"
    using that by (simp add: decide_from_parsed_def)
  have C: "decide_from_parsed (Some r) (Inr (JDict parsed)) = get_fallback_decision (Some r)"
    if "py_iter (dict_get parsed ''agents_to_rerun'' (JList [])) = Inl e"
    using that by (simp add: decide_from_parsed_def)
  have D: "decide_from_parsed (Some r) result = get_fallback_decision (Some r)"
    if "\<forall>p. result \<noteq> Inr (JDict p)"
    using that by (auto simp: decide_from_parsed_def split: sum.splits json.splits)
  from A B C D show ?thesis by blast
qed

text \<open>
  A report with no failed test case and no issue, whose overall status asks for a review.
\<close>

definition review_report :: TestReport where
  "review_report =
     \<lparr>overall_status = ''needs_review'',
      test_cases =
        [\<lparr>tc_id = ''TC001'', tc_description = ''smoke'', tc_status = ''pass'',
          tc_notes = '''', tc_responsible_agent = ''''\<rparr>],
      tr_summary = '''', recommendations = [],
      issues_by_agent = [(''product_owner'', []), (''architect'', []),
                         (''backend_engineer'', []), (''frontend_engineer'', [])]\<rparr>"

lemma review_report_no_failure:
  "\<not> list_ex (\<lambda>tc. lower (tc_status tc) = ''fail'') (test_cases review_report)"
  by (simp add: review_report_def lower_pass)

lemma review_report_fallback:
  "get_fallback_decision (Some review_report)
     = Inr \<lparr>should_continue = JBool False, agents_to_rerun = [],
            reasoning = JStr ''No specific agents identified with issues'',
            iteration_goal = JStr ''''\<rparr>"
  by (simp add: get_fallback_decision_def check_qa_passed_def review_report_def
      lower_needs_review lower_pass ManagerDecision_init_def
      get_agents_with_issues_from_report_def)

theorem zero_failures_decision_witness:
  "\<not> list_ex (\<lambda>tc. lower (tc_status tc) = ''fail'') (test_cases review_report)
   \<and> (\<exists>d. get_fallback_decision (Some review_report) = Inr d \<and> \<not> truthy (should_continue d))
   \<and> py_iter (dict_get [(''should_continue'', JBool False)] ''agents_to_rerun'' (JList []))
       = Inr []
   \<and> (\<exists>d. decide_from_parsed (Some review_report)
              (Inr (JDict [(''should_continue'', JBool False)])) = Inr d
          \<and> should_continue d = JBool False)
   \<and> py_iter (dict_get [(''agents_to_rerun'', JInt 3)] ''agents_to_rerun'' (JList []))
       = Inl TypeError
   \<and> decide_from_parsed (Some review_report) (Inr (JDict [(''agents_to_rerun'', JInt 3)]))
       = Inr \<lparr>should_continue = JBool False, agents_to_rerun = [],
              reasoning = JStr ''No specific agents identified with issues'',
              iteration_goal = JStr ''''\<rparr>
   \<and> decide_from_parsed (Some review_report) (Inl ''No JSON found in text'')
       = Inr \<lparr>should_continue = JBool False, agents_to_rerun = [],
              reasoning = JStr ''No specific agents identified with issues'',
              iteration_goal = JStr ''''\<rparr>"
proof -
  let ?P = "[(''should_continue'', JBool False)]"
  let ?Q = "[(''agents_to_rerun'', JInt 3)]"
  let ?F = "Inl ''No JSON found in text'' :: string + json"
  have g: "py_iter (dict_get ?P ''agents_to_rerun'' (JList [])) = Inr []"
    by (simp add: dict_get_def)
  have s: "dict_get ?P ''should_continue'' (JBool False) = JBool False"
    by (simp add: dict_get_def)
  have t: "py_iter (dict_get ?Q ''agents_to_rerun'' (JList [])) = Inl TypeError"
    by (simp add: dict_get_def)
  have n: "\<forall>p. ?F \<noteq> Inr (JDict p)" by simp
  have i: "\<not> list_ex (\<lambda>kv. snd kv \<noteq> []) (issues_by_agent review_report)"
    by (simp add: review_report_def)
  from zero_failures_decision [of review_report ?P "[]" TypeError ?F]
       review_report_no_failure i
  have 1: "\<exists>d. get_fallback_decision (Some review_report) = Inr d \<and> \<not> truthy (should_continue d)"
    by blast
  from zero_failures_decision [of review_report ?P "[]" TypeError ?F] g
  have 2: "\<exists>d. decide_from_parsed (Some review_report) (Inr (JDict ?P)) = Inr d
          \<and> should_continue d = JBool False"
    unfolding s by blast
  from zero_failures_decision [of review_report ?Q "[]" TypeError ?F] t
  have 3: "decide_from_parsed (Some review_report) (Inr (JDict ?Q))
      = get_fallback_decision (Some review_report)"
    by blast
  from zero_failures_decision [of review_report ?Q "[]" TypeError ?F] n
  have 4: "decide_from_parsed (Some review_report) ?F
      = get_fallback_decision (Some review_report)"
    by blast
  from review_report_no_failure 1 g 2 t 3 4 show ?thesis
    unfolding review_report_fallback by (intro conjI)
qed

text \<open>
  C2 as stated fails on both paths.  On the primary path the proposal decides: with the
  report above (no failed test case, no issue) and a proposal that asks to continue, the
  decision continues.  On the fallback path a report with no failed test case, overall
  status \<open>fail\<close> and one issue listed for the architect continues as well.
\<close>

theorem zero_failures_decision_counterexample:
  "\<not> list_ex (\<lambda>tc. lower (tc_status tc) = ''fail'') (test_cases review_report)
   \<and> decide_from_parsed (Some review_report)
        (Inr (JDict [(''should_continue'', JBool True),
                     (''agents_to_rerun'', JList [JStr ''architect'']),
                     (''reasoning'', JStr ''polish''),
                     (''iteration_goal'', JStr ''polish'')]))
     = Inr \<lparr>should_continue = JBool True,
            agents_to_rerun = [''architect'', ''backend_engineer'', ''frontend_engineer''],
            reasoning = JStr ''polish'', iteration_goal = JStr ''polish''\<rparr>
   \<and> get_fallback_decision
        (Some \<lparr>overall_status = ''fail'', test_cases = [], tr_summary = '''',
               recommendations = [], issues_by_agent = [(''architect'', [''no auth model''])]\<rparr>)
     = Inr \<lparr>should_continue = JBool True,
            agents_to_rerun = [''architect'', ''backend_engineer'', ''frontend_engineer''],
            reasoning = JStr ''Issues found for: architect'',
            iteration_goal = JStr ''Fix identified issues''\<rparr>"
proof -
  have k: "keep_valid_agents [JStr ''architect''] = [''architect'']"
    by (simp add: valid_agents_def agent_names)
  have 1: "decide_from_parsed (Some review_report)
        (Inr (JDict [(''should_continue'', JBool True),
                     (''agents_to_rerun'', JList [JStr ''architect'']),
                     (''reasoning'', JStr ''polish''),
                     (''iteration_goal'', JStr ''polish'')]))
     = Inr \<lparr>should_continue = JBool True,
            agents_to_rerun = [''architect'', ''backend_engineer'', ''frontend_engineer''],
            reasoning = JStr ''polish'', iteration_goal = JStr ''polish''\<rparr>"
    by (simp add: decide_from_parsed_def dict_get_def k closure_architect
        del: keep_valid_agents.simps)
  have 2: "get_fallback_decision
        (Some \<lparr>overall_status = ''fail'', test_cases = [], tr_summary = '''',
               recommendations = [], issues_by_agent = [(''architect'', [''no auth model''])]\<rparr>)
     = Inr \<lparr>should_continue = JBool True,
            agents_to_rerun = [''architect'', ''backend_engineer'', ''frontend_engineer''],
            reasoning = JStr ''Issues found for: architect'',
            iteration_goal = JStr ''Fix identified issues''\<rparr>"
    by (simp add: get_fallback_decision_def check_qa_passed_def lower_fail
        ManagerDecision_init_def get_agents_with_issues_from_report_def set_add_def
        closure_architect)
  from review_report_no_failure 1 2 show ?thesis by (intro conjI)
qed

section \<open>Facts about the matcher\<close>



















section \<open>Truncation repair\<close>















section \<open>The recovery ladder\<close>

lemma find_chr_bound: "find_chr s c = Some i \<Longrightarrow> i < length s"
  by (induction s arbitrary: i) (auto split: if_splits)

lemma between_nonempty: "between text opn cls = Some j \<Longrightarrow> j \<noteq> []"
  by (auto simp: between_def slice_def rfind_chr_def split: option.splits if_splits
      dest!: find_chr_bound)

lemma first_json_match_nonempty: "first_json_match ms = Some j \<Longrightarrow> j \<noteq> []"
  by (induction ms) (auto simp: Let_def startswith_def split: if_splits)

lemma first_json_block_nonempty: "first_json_block ps text = Some j \<Longrightarrow> j \<noteq> []"
  by (induction ps) (auto split: option.splits dest: first_json_match_nonempty)

lemma extract_json_from_text_nonempty:
  assumes "extract_json_from_text text = Some j"
  shows "j \<noteq> []" and "text \<noteq> []"
  using assms
    first_json_block_nonempty [of "[fence_json_pattern, fence_pattern, inline_pattern]"
      "strip text" j]
    between_nonempty [of "strip text" "CHR ''{''" "CHR ''}''" j]
    between_nonempty [of "strip text" "CHR ''[''" "CHR '']''" j]
  by (auto simp: extract_json_from_text_def Let_def startswith_def
      simp del: first_json_block.simps
      split: if_splits option.splits)

lemma safe_parse_json_errors:
  "safe_parse_json loads cls text = Inl e \<Longrightarrow>
     e \<in> {''Empty input'', ''No JSON found in text'', ''Failed to parse JSON after all attempts''}"
  unfolding safe_parse_json_def Let_def
  by (simp split: if_splits option.splits)

lemma safe_parse_json_Inr:
  "safe_parse_json loads cls text = Inr p \<Longrightarrow>
     \<exists>j. extract_json_from_text text = Some j
       \<and> (try_parse loads cls j \<noteq> None
          \<or> try_parse loads cls (fix_common_json_errors j) \<noteq> None
          \<or> try_parse loads cls (repair_truncated_json (fix_common_json_errors j)) \<noteq> None
          \<or> (\<exists>c. cls = Some c \<and> recover_truncated_output c text \<noteq> None))"
  unfolding safe_parse_json_def Let_def
  by (auto split: if_splits option.splits)

text \<open>
  C4.  \<open>_extract_output\<close> returns a stage result for every task output and schema: the
  exceptions of \<open>json.loads\<close>, of the validation and of the salvage are caught inside
  \<open>safe_parse_json\<close>, and no branch of the model is left without a result.  The result
  keeps the raw text of the output.  A successful result has data and no error; a
  result without success has no data and carries one of the three error texts of
  \<open>safe_parse_json\<close>.  A result is successful only when the output has a model or a
  dictionary, or the envelope extraction finds a candidate and one of the rungs yields a
  value on it.  When the output has neither a model nor a dictionary, every way in which
  all rungs fail gives \<open>success = False\<close>, no data and the raw text unchanged: on the
  empty text with the error \<open>Empty input\<close>; on a text without a candidate with the
  error \<open>No JSON found in text\<close>; and when \<open>json.loads\<close> or the validation fails on
  the candidate, on the fixed candidate and on the repaired candidate, and the salvage of
  the schema (when there is a schema) recovers nothing, with the error
  \<open>Failed to parse JSON after all attempts\<close>.
\<close>

theorem extract_output_total_failure:
  "raw (extract_output loads out cls) = out_raw out
   \<and> (success (extract_output loads out cls) \<longleftrightarrow> data (extract_output loads out cls) \<noteq> None)
   \<and> (success (extract_output loads out cls) \<longleftrightarrow> error (extract_output loads out cls) = None)
   \<and> (\<not> success (extract_output loads out cls) \<longrightarrow>
        (\<exists>e. error (extract_output loads out cls) = Some e
           \<and> e \<in> {''Empty input'', ''No JSON found in text'',
                  ''Failed to parse JSON after all attempts''}))
   \<and> (success (extract_output loads out cls) \<longrightarrow>
        out_pydantic out \<noteq> None
        \<or> (out_json_dict out \<noteq> None \<and> out_json_dict out \<noteq> Some [])
        \<or> (\<exists>j. extract_json_from_text (out_raw out) = Some j
              \<and> (try_parse loads cls j \<noteq> None
                 \<or> try_parse loads cls (fix_common_json_errors j) \<noteq> None
                 \<or> try_parse loads cls (repair_truncated_json (fix_common_json_errors j))
                     \<noteq> None
                 \<or> (\<exists>c. cls = Some c \<and> recover_truncated_output c (out_raw out) \<noteq> None))))
   \<and> (out_pydantic out = None \<and> (out_json_dict out = None \<or> out_json_dict out = Some [])
        \<and> out_raw out = [] \<longrightarrow>
      extract_output loads out cls
        = \<lparr>success = False, data = None, raw = out_raw out, error = Some ''Empty input''\<rparr>)
   \<and> (out_pydantic out = None \<and> (out_json_dict out = None \<or> out_json_dict out = Some [])
        \<and> out_raw out \<noteq> [] \<and> extract_json_from_text (out_raw out) = None \<longrightarrow>
      extract_output loads out cls
        = \<lparr>success = False, data = None, raw = out_raw out,
           error = Some ''No JSON found in text''\<rparr>)
   \<and> (out_pydantic out = None \<and> (out_json_dict out = None \<or> out_json_dict out = Some [])
        \<and> extract_json_from_text (out_raw out) = Some j
        \<and> try_parse loads cls j = None
        \<and> try_parse loads cls (fix_common_json_errors j) = None
        \<and> try_parse loads cls (repair_truncated_json (fix_common_json_errors j)) = None
        \<and> (case cls of None \<Rightarrow> True
            | Some c \<Rightarrow> recover_truncated_output c (out_raw out) = None) \<longrightarrow>
      extract_output loads out cls
        = \<lparr>success = False, data = None, raw = out_raw out,
           error = Some ''Failed to parse JSON after all attempts''\<rparr>)"
proof -
  let ?res = "extract_output loads out cls"
  have 1: "raw ?res = out_raw out"
    unfolding extract_output_def Let_def
    by (simp split: option.splits sum.splits)
  have 2: "success ?res \<longleftrightarrow> data ?res \<noteq> None"
    unfolding extract_output_def Let_def
    by (auto split: option.splits sum.splits)
  have 8: "success ?res \<longleftrightarrow> error ?res = None"
    unfolding extract_output_def Let_def
    by (auto split: option.splits sum.splits)
  have 3: "\<exists>e. error ?res = Some e
           \<and> e \<in> {''Empty input'', ''No JSON found in text'',
                  ''Failed to parse JSON after all attempts''}"
    if "\<not> success ?res"
    using that safe_parse_json_errors [of loads cls "out_raw out"]
    unfolding extract_output_def Let_def
    by (auto split: option.splits sum.splits if_splits)
  have 4: "out_pydantic out \<noteq> None
        \<or> (out_json_dict out \<noteq> None \<and> out_json_dict out \<noteq> Some [])
        \<or> (\<exists>j. extract_json_from_text (out_raw out) = Some j
              \<and> (try_parse loads cls j \<noteq> None
                 \<or> try_parse loads cls (fix_common_json_errors j) \<noteq> None
                 \<or> try_parse loads cls (repair_truncated_json (fix_common_json_errors j))
                     \<noteq> None
                 \<or> (\<exists>c. cls = Some c \<and> recover_truncated_output c (out_raw out) \<noteq> None)))"
    if s: "success ?res"
  proof (cases "out_pydantic out \<noteq> None
        \<or> (out_json_dict out \<noteq> None \<and> out_json_dict out \<noteq> Some [])")
    case True
    then show ?thesis by blast
  next
    case False
    with s obtain p where "safe_parse_json loads cls (out_raw out) = Inr p"
      unfolding extract_output_def Let_def
      by (auto split: option.splits sum.splits if_splits)
    from safe_parse_json_Inr [OF this] show ?thesis by blast
  qed
  have 5: "?res = \<lparr>success = False, data = None, raw = out_raw out,
           error = Some ''Empty input''\<rparr>"
    if "out_pydantic out = None \<and> (out_json_dict out = None \<or> out_json_dict out = Some [])
        \<and> out_raw out = []"
  proof -
    from that have "safe_parse_json loads cls (out_raw out) = Inl ''Empty input''"
      by (simp add: safe_parse_json_def)
    with that show ?thesis
      unfolding extract_output_def Let_def by auto
  qed
  have 6: "?res = \<lparr>success = False, data = None, raw = out_raw out,
           error = Some ''No JSON found in text''\<rparr>"
    if "out_pydantic out = None \<and> (out_json_dict out = None \<or> out_json_dict out = Some [])
        \<and> out_raw out \<noteq> [] \<and> extract_json_from_text (out_raw out) = None"
  proof -
    from that have "safe_parse_json loads cls (out_raw out) = Inl ''No JSON found in text''"
      by (simp add: safe_parse_json_def)
    with that show ?thesis
      unfolding extract_output_def Let_def by auto
  qed
  have 7: "?res = \<lparr>success = False, data = None, raw = out_raw out,
           error = Some ''Failed to parse JSON after all attempts''\<rparr>"
    if h: "out_pydantic out = None \<and> (out_json_dict out = None \<or> out_json_dict out = Some [])
        \<and> extract_json_from_text (out_raw out) = Some j
        \<and> try_parse loads cls j = None
        \<and> try_parse loads cls (fix_common_json_errors j) = None
        \<and> try_parse loads cls (repair_truncated_json (fix_common_json_errors j)) = None
        \<and> (case cls of None \<Rightarrow> True
            | Some c \<Rightarrow> recover_truncated_output c (out_raw out) = None)"
  proof -
    from h have ne: "j \<noteq> []" "out_raw out \<noteq> []"
      using extract_json_from_text_nonempty [of "out_raw out" j] by blast+
    from h ne have "safe_parse_json loads cls (out_raw out)
        = Inl ''Failed to parse JSON after all attempts''"
      unfolding safe_parse_json_def Let_def
      by (auto split: option.splits)
    with h show ?thesis
      unfolding extract_output_def Let_def by auto
  qed
  from 1 2 8 3 4 5 6 7 show ?thesis by blast
qed

lemma extract_json_from_text_no: "extract_json_from_text ''no'' = None"
  by code_simp

theorem extract_output_total_failure_witness:
  "extract_json_from_text ''{a}'' = Some ''{a}''
   \<and> try_parse (\<lambda>s. None) (None :: unit schema option) ''{a}'' = None
   \<and> extract_output (\<lambda>s. None)
        \<lparr>out_raw = ''{a}'', out_pydantic = None, out_json_dict = None\<rparr>
        (None :: unit schema option)
     = \<lparr>success = False, data = None, raw = ''{a}'',
        error = Some ''Failed to parse JSON after all attempts''\<rparr>
   \<and> extract_output (\<lambda>s. None)
        \<lparr>out_raw = '''', out_pydantic = None, out_json_dict = None\<rparr>
        (None :: unit schema option)
     = \<lparr>success = False, data = None, raw = '''', error = Some ''Empty input''\<rparr>
   \<and> extract_json_from_text ''no'' = None
   \<and> extract_output (\<lambda>s. None)
        \<lparr>out_raw = ''no'', out_pydantic = None, out_json_dict = None\<rparr>
        (None :: unit schema option)
     = \<lparr>success = False, data = None, raw = ''no'', error = Some ''No JSON found in text''\<rparr>"
proof -
  let ?A = "\<lparr>out_raw = ''{a}'', out_pydantic = None :: unit option, out_json_dict = None\<rparr>"
  let ?E = "\<lparr>out_raw = '''', out_pydantic = None :: unit option, out_json_dict = None\<rparr>"
  let ?N = "\<lparr>out_raw = ''no'', out_pydantic = None :: unit option, out_json_dict = None\<rparr>"
  let ?loads = "\<lambda>s :: string. None :: json option"
  let ?cls = "None :: unit schema option"
  have x: "extract_json_from_text ''{a}'' = Some ''{a}''"
    by (simp add: extract_json_from_text_def strip_def isspace_def startswith_def endswith_def)
  have t: "\<And>s. try_parse ?loads ?cls s = None"
    by (simp add: try_parse_def)
  have a: "extract_output ?loads ?A ?cls
     = \<lparr>success = False, data = None, raw = out_raw ?A,
        error = Some ''Failed to parse JSON after all attempts''\<rparr>"
    using extract_output_total_failure [of ?loads ?A ?cls "''{a}''"] x t
    by simp
  have e: "extract_output ?loads ?E ?cls
     = \<lparr>success = False, data = None, raw = out_raw ?E, error = Some ''Empty input''\<rparr>"
    using extract_output_total_failure [of ?loads ?E ?cls "[]"]
    by simp
  have n: "extract_output ?loads ?N ?cls
     = \<lparr>success = False, data = None, raw = out_raw ?N,
        error = Some ''No JSON found in text''\<rparr>"
    using extract_output_total_failure [of ?loads ?N ?cls "[]"] extract_json_from_text_no
    by simp
  from x t a e n extract_json_from_text_no show ?thesis by simp
qed

section \<open>The pipeline context\<close>

lemmas update_defs =
  update_user_stories_def update_system_design_def update_backend_code_def
  update_frontend_code_def update_test_report_def

lemma fmt_us_cong:
  "user_stories cm = user_stories cm' \<Longrightarrow>
     format_user_stories_summary cm = format_user_stories_summary cm'"
  by (simp add: format_user_stories_summary_def)

lemma fmt_sd_cong:
  "system_design cm = system_design cm' \<Longrightarrow>
     format_system_design_summary cm = format_system_design_summary cm'"
  by (simp add: format_system_design_summary_def)

lemma fmt_be_cong:
  "backend_code cm = backend_code cm' \<Longrightarrow>
     format_backend_endpoints_summary cm = format_backend_endpoints_summary cm'"
  by (simp add: format_backend_endpoints_summary_def)

lemma fmt_bcf_cong:
  "backend_code cm = backend_code cm' \<Longrightarrow>
     format_backend_code_full cm = format_backend_code_full cm'"
  by (simp add: format_backend_code_full_def)

lemma fmt_fcf_cong:
  "frontend_code cm = frontend_code cm' \<Longrightarrow>
     format_frontend_code_full cm = format_frontend_code_full cm'"
  by (simp add: format_frontend_code_full_def)

lemma fmt_qa_cong:
  "test_report cm = test_report cm' \<Longrightarrow> format_qa_feedback cm a = format_qa_feedback cm' a"
  by (simp add: format_qa_feedback_def)

lemma prev_po:
  "format_previous_output_summary cm AGENT_PRODUCT_OWNER =
     (if user_stories cm \<noteq> None
      then [newline] @ ''## Your Previous User Stories (to be updated):'' @ [newline]
           @ format_user_stories_summary cm
      else '''')"
  by (simp add: format_previous_output_summary_def agent_names)

lemma prev_arch:
  "format_previous_output_summary cm AGENT_ARCHITECT =
     (if system_design cm \<noteq> None
      then [newline] @ ''## Your Previous System Design (to be updated):'' @ [newline]
           @ format_system_design_summary cm
      else '''')"
  by (simp add: format_previous_output_summary_def agent_names)

lemma prev_be:
  "format_previous_output_summary cm AGENT_BACKEND_ENGINEER =
     (if backend_code cm \<noteq> None
      then [newline] @ ''## Your Previous Backend Files (to be updated): ''
           @ join '', '' (map cf_filename (case backend_code cm of
                                             Some bc \<Rightarrow> bc_files bc | None \<Rightarrow> []))
      else '''')"
  by (simp add: format_previous_output_summary_def agent_names)

lemma prev_fe:
  "format_previous_output_summary cm AGENT_FRONTEND_ENGINEER =
     (if frontend_code cm \<noteq> None
      then [newline] @ ''## Your Previous Frontend Files (to be updated): ''
           @ join '', '' (map cf_filename (case frontend_code cm of
                                             Some fc \<Rightarrow> fc_files fc | None \<Rightarrow> []))
      else '''')"
  by (simp add: format_previous_output_summary_def agent_names)

lemma iter_po_cong:
  "user_stories cm = user_stories cm' \<Longrightarrow> test_report cm = test_report cm' \<Longrightarrow>
     iteration_parts cm AGENT_PRODUCT_OWNER = iteration_parts cm' AGENT_PRODUCT_OWNER"
  using fmt_us_cong [of cm cm'] fmt_qa_cong [of cm cm' AGENT_PRODUCT_OWNER]
  by (simp only: iteration_parts_def prev_po)

lemma iter_arch_cong:
  "system_design cm = system_design cm' \<Longrightarrow> test_report cm = test_report cm' \<Longrightarrow>
     iteration_parts cm AGENT_ARCHITECT = iteration_parts cm' AGENT_ARCHITECT"
  using fmt_sd_cong [of cm cm'] fmt_qa_cong [of cm cm' AGENT_ARCHITECT]
  by (simp only: iteration_parts_def prev_arch)

lemma iter_be_cong:
  "backend_code cm = backend_code cm' \<Longrightarrow> test_report cm = test_report cm' \<Longrightarrow>
     iteration_parts cm AGENT_BACKEND_ENGINEER = iteration_parts cm' AGENT_BACKEND_ENGINEER"
  using fmt_qa_cong [of cm cm' AGENT_BACKEND_ENGINEER]
  by (simp only: iteration_parts_def prev_be)

lemma iter_fe_cong:
  "frontend_code cm = frontend_code cm' \<Longrightarrow> test_report cm = test_report cm' \<Longrightarrow>
     iteration_parts cm AGENT_FRONTEND_ENGINEER = iteration_parts cm' AGENT_FRONTEND_ENGINEER"
  using fmt_qa_cong [of cm cm' AGENT_FRONTEND_ENGINEER]
  by (simp only: iteration_parts_def prev_fe)

text \<open>
  C9 (as the code has it).  An update with a failed result, or with no result, leaves the
  context manager unchanged; an update with a successful result stores the data of that
  result in the slot of its stage and changes no other slot; so each slot holds the data
  of the latest successful result of its stage.  The context of the initial run
  (\<open>is_iteration = False\<close>) is a function of the stored slots of the upstream stages
  alone: the requirement text for the product owner, the user stories for the architect,
  user stories and system design for the backend engineer, these and the backend code
  for the frontend engineer, and the four build slots for the QA engineer.  The context
  of a rerun (\<open>is_iteration = True\<close>) is a function of those slots, of the stored output
  of the stage itself and of the stored QA report.  No context reads anything but the
  stored slots and the requirement text.
\<close>

theorem context_built_from_stored_results:
  "update_user_stories cm None = cm \<and> update_system_design cm None = cm
   \<and> update_backend_code cm None = cm \<and> update_frontend_code cm None = cm
   \<and> update_test_report cm None = cm
   \<and> update_user_stories cm (Some r1)
       = (if success r1 then cm\<lparr>user_stories := data r1\<rparr> else cm)
   \<and> update_system_design cm (Some r2)
       = (if success r2 then cm\<lparr>system_design := data r2\<rparr> else cm)
   \<and> update_backend_code cm (Some r3)
       = (if success r3 then cm\<lparr>backend_code := data r3\<rparr> else cm)
   \<and> update_frontend_code cm (Some r4)
       = (if success r4 then cm\<lparr>frontend_code := data r4\<rparr> else cm)
   \<and> update_test_report cm (Some r5)
       = (if success r5 then cm\<lparr>test_report := data r5\<rparr> else cm)
   \<and> (vibe_prompt cm = vibe_prompt cm' \<longrightarrow>
        get_context_for_product_owner cm False = get_context_for_product_owner cm' False)
   \<and> (user_stories cm = user_stories cm' \<longrightarrow>
        get_context_for_architect cm False = get_context_for_architect cm' False)
   \<and> (user_stories cm = user_stories cm' \<and> system_design cm = system_design cm' \<longrightarrow>
        get_context_for_backend_engineer cm False = get_context_for_backend_engineer cm' False)
   \<and> (user_stories cm = user_stories cm' \<and> system_design cm = system_design cm'
        \<and> backend_code cm = backend_code cm' \<longrightarrow>
        get_context_for_frontend_engineer cm False = get_context_for_frontend_engineer cm' False)
   \<and> (user_stories cm = user_stories cm' \<and> system_design cm = system_design cm'
        \<and> backend_code cm = backend_code cm' \<and> frontend_code cm = frontend_code cm' \<longrightarrow>
        get_context_for_qa_engineer cm = get_context_for_qa_engineer cm')
   \<and> (vibe_prompt cm = vibe_prompt cm' \<and> user_stories cm = user_stories cm'
        \<and> test_report cm = test_report cm' \<longrightarrow>
        get_context_for_product_owner cm True = get_context_for_product_owner cm' True)
   \<and> (user_stories cm = user_stories cm' \<and> system_design cm = system_design cm'
        \<and> test_report cm = test_report cm' \<longrightarrow>
        get_context_for_architect cm True = get_context_for_architect cm' True)
   \<and> (user_stories cm = user_stories cm' \<and> system_design cm = system_design cm'
        \<and> backend_code cm = backend_code cm' \<and> test_report cm = test_report cm' \<longrightarrow>
        get_context_for_backend_engineer cm True = get_context_for_backend_engineer cm' True)
   \<and> (user_stories cm = user_stories cm' \<and> system_design cm = system_design cm'
        \<and> backend_code cm = backend_code cm' \<and> frontend_code cm = frontend_code cm'
        \<and> test_report cm = test_report cm' \<longrightarrow>
        get_context_for_frontend_engineer cm True = get_context_for_frontend_engineer cm' True)"
proof -
  have u: "update_user_stories cm None = cm" "update_system_design cm None = cm"
    "update_backend_code cm None = cm" "update_frontend_code cm None = cm"
    "update_test_report cm None = cm"
    "update_user_stories cm (Some r1)
       = (if success r1 then cm\<lparr>user_stories := data r1\<rparr> else cm)"
    "update_system_design cm (Some r2)
       = (if success r2 then cm\<lparr>system_design := data r2\<rparr> else cm)"
    "update_backend_code cm (Some r3)
       = (if success r3 then cm\<lparr>backend_code := data r3\<rparr> else cm)"
    "update_frontend_code cm (Some r4)
       = (if success r4 then cm\<lparr>frontend_code := data r4\<rparr> else cm)"
    "update_test_report cm (Some r5)
       = (if success r5 then cm\<lparr>test_report := data r5\<rparr> else cm)"
    by (simp_all add: update_defs)
  have f: "get_context_for_product_owner cm False = get_context_for_product_owner cm' False"
    if "vibe_prompt cm = vibe_prompt cm'"
    using that by (simp add: get_context_for_product_owner_def)
  have g: "get_context_for_architect cm False = get_context_for_architect cm' False"
    if "user_stories cm = user_stories cm'"
    using fmt_us_cong [OF that] by (simp add: get_context_for_architect_def)
  have h: "get_context_for_backend_engineer cm False = get_context_for_backend_engineer cm' False"
    if "user_stories cm = user_stories cm' \<and> system_design cm = system_design cm'"
    using that fmt_us_cong [of cm cm'] fmt_sd_cong [of cm cm']
    by (simp add: get_context_for_backend_engineer_def)
  have i: "get_context_for_frontend_engineer cm False
      = get_context_for_frontend_engineer cm' False"
    if "user_stories cm = user_stories cm' \<and> system_design cm = system_design cm'
        \<and> backend_code cm = backend_code cm'"
    using that fmt_us_cong [of cm cm'] fmt_sd_cong [of cm cm'] fmt_be_cong [of cm cm']
    by (simp add: get_context_for_frontend_engineer_def)
  have j: "get_context_for_qa_engineer cm = get_context_for_qa_engineer cm'"
    if "user_stories cm = user_stories cm' \<and> system_design cm = system_design cm'
        \<and> backend_code cm = backend_code cm' \<and> frontend_code cm = frontend_code cm'"
    using that fmt_us_cong [of cm cm'] fmt_sd_cong [of cm cm'] fmt_bcf_cong [of cm cm']
      fmt_fcf_cong [of cm cm']
    by (simp add: get_context_for_qa_engineer_def)
  have k: "get_context_for_product_owner cm True = get_context_for_product_owner cm' True"
    if "vibe_prompt cm = vibe_prompt cm' \<and> user_stories cm = user_stories cm'
        \<and> test_report cm = test_report cm'"
    using that iter_po_cong [of cm cm']
    by (simp add: get_context_for_product_owner_def)
  have l: "get_context_for_architect cm True = get_context_for_architect cm' True"
    if "user_stories cm = user_stories cm' \<and> system_design cm = system_design cm'
        \<and> test_report cm = test_report cm'"
    using that fmt_us_cong [of cm cm'] iter_arch_cong [of cm cm']
    by (simp add: get_context_for_architect_def)
  have m: "get_context_for_backend_engineer cm True = get_context_for_backend_engineer cm' True"
    if "user_stories cm = user_stories cm' \<and> system_design cm = system_design cm'
        \<and> backend_code cm = backend_code cm' \<and> test_report cm = test_report cm'"
    using that fmt_us_cong [of cm cm'] fmt_sd_cong [of cm cm'] iter_be_cong [of cm cm']
    by (simp add: get_context_for_backend_engineer_def)
  have n: "get_context_for_frontend_engineer cm True = get_context_for_frontend_engineer cm' True"
    if "user_stories cm = user_stories cm' \<and> system_design cm = system_design cm'
        \<and> backend_code cm = backend_code cm' \<and> frontend_code cm = frontend_code cm'
        \<and> test_report cm = test_report cm'"
    using that fmt_us_cong [of cm cm'] fmt_sd_cong [of cm cm'] fmt_be_cong [of cm cm']
      iter_fe_cong [of cm cm']
    by (simp add: get_context_for_frontend_engineer_def)
  show ?thesis
    by (intro conjI impI) (rule u f g h i j k l m n, assumption?)+
qed

text \<open>
  Two contexts that differ in the stored QA report only: one has none, the other holds a
  report with a recommendation.
\<close>

definition report_with_advice :: TestReport where
  "report_with_advice =
     \<lparr>overall_status = ''fail'', test_cases = [], tr_summary = '''',
      recommendations = [''Add tests''], issues_by_agent = []\<rparr>"

lemma frontend_context_init_rerun:
  "get_context_for_frontend_engineer ContextManager_init True
     = ''No user stories available.'' @ [newline, newline]
       @ ''No system design available.'' @ [newline, newline]
       @ ''No backend endpoints available.''"
  by (simp add: get_context_for_frontend_engineer_def format_user_stories_summary_def
      format_system_design_summary_def format_backend_endpoints_summary_def
      iteration_parts_def prev_fe format_qa_feedback_def ContextManager_init_def)

lemma frontend_context_advice_rerun:
  "get_context_for_frontend_engineer
     (ContextManager_init\<lparr>test_report := Some report_with_advice\<rparr>) True
     = ''No user stories available.'' @ [newline, newline]
       @ ''No system design available.'' @ [newline, newline]
       @ ''No backend endpoints available.'' @ [newline, newline]
       @ [newline] @ ''## QA Feedback (Please address these issues):'' @ [newline]
       @ [newline] @ ''Recommendations:'' @ [newline] @ ''  - Add tests''"
  by (simp add: get_context_for_frontend_engineer_def format_user_stories_summary_def
      format_system_design_summary_def format_backend_endpoints_summary_def
      iteration_parts_def prev_fe format_qa_feedback_def ContextManager_init_def
      report_with_advice_def dict_get_def Let_def)

theorem context_built_from_stored_results_witness:
  "user_stories (ContextManager_init\<lparr>test_report := Some report_with_advice\<rparr>)
     = user_stories ContextManager_init
   \<and> system_design (ContextManager_init\<lparr>test_report := Some report_with_advice\<rparr>)
     = system_design ContextManager_init
   \<and> backend_code (ContextManager_init\<lparr>test_report := Some report_with_advice\<rparr>)
     = backend_code ContextManager_init
   \<and> get_context_for_frontend_engineer
        (ContextManager_init\<lparr>test_report := Some report_with_advice\<rparr>) False
     = get_context_for_frontend_engineer ContextManager_init False
   \<and> update_test_report ContextManager_init
        (Some \<lparr>success = False, data = Some report_with_advice, raw = ''x'', error = None\<rparr>)
     = ContextManager_init
   \<and> update_test_report ContextManager_init
        (Some \<lparr>success = True, data = Some report_with_advice, raw = ''x'', error = None\<rparr>)
     = ContextManager_init\<lparr>test_report := Some report_with_advice\<rparr>"
proof -
  let ?A = "ContextManager_init\<lparr>test_report := Some report_with_advice\<rparr>"
  let ?B = "ContextManager_init"
  let ?bad = "\<lparr>success = False, data = Some report_with_advice, raw = ''x'', error = None\<rparr>"
  let ?good = "\<lparr>success = True, data = Some report_with_advice, raw = ''x'', error = None\<rparr>"
  have e: "user_stories ?A = user_stories ?B" "system_design ?A = system_design ?B"
    "backend_code ?A = backend_code ?B"
    by simp_all
  from context_built_from_stored_results [of ?A _ _ _ _ ?bad ?B] e
  have 1: "get_context_for_frontend_engineer ?A False
      = get_context_for_frontend_engineer ?B False"
    by blast
  from context_built_from_stored_results [of ?B _ _ _ _ ?bad ?A]
  have "update_test_report ?B (Some ?bad)
      = (if success ?bad then ?B\<lparr>test_report := data ?bad\<rparr> else ?B)" by blast
  then have 2: "update_test_report ?B (Some ?bad) = ?B" by simp
  from context_built_from_stored_results [of ?B _ _ _ _ ?good ?A]
  have "update_test_report ?B (Some ?good)
      = (if success ?good then ?B\<lparr>test_report := data ?good\<rparr> else ?B)" by blast
  then have 3: "update_test_report ?B (Some ?good) = ?A" by simp
  from e 1 2 3 show ?thesis by (intro conjI)
qed

text \<open>
  C9 as stated fails for the context of a rerun: the two contexts agree on the stored
  results of every stage upstream of the frontend engineer, and the context built for the
  frontend engineer differs, because it quotes the stored QA report.
\<close>

theorem context_built_from_stored_results_counterexample:
  "user_stories (ContextManager_init\<lparr>test_report := Some report_with_advice\<rparr>)
     = user_stories ContextManager_init
   \<and> system_design (ContextManager_init\<lparr>test_report := Some report_with_advice\<rparr>)
     = system_design ContextManager_init
   \<and> backend_code (ContextManager_init\<lparr>test_report := Some report_with_advice\<rparr>)
     = backend_code ContextManager_init
   \<and> get_context_for_frontend_engineer
        (ContextManager_init\<lparr>test_report := Some report_with_advice\<rparr>) True
     \<noteq> get_context_for_frontend_engineer ContextManager_init True"
  unfolding frontend_context_init_rerun frontend_context_advice_rerun
  by simp

section \<open>The first fenced block\<close>


























section \<open>What a match consumes\<close>

lemma in_Epsilon: "(s', g') \<in> set (rx_match Epsilon (s, g)) \<longleftrightarrow> s' = s \<and> g' = g"
  by (auto simp: rx_Epsilon)









lemma in_seq_Nil: "(s', g') \<in> set (rx_match (seq []) (s, g)) \<longleftrightarrow> s' = s \<and> g' = g"
  by (simp add: in_Epsilon)






section \<open>Complete records\<close>







































text \<open>A system design cut off behind its first endpoint, before any model.\<close>

definition endpoints_only_text :: string where
  \<open>endpoints_only_text =
     ''{"endpoints": [{"method": "get", "path": "/tasks", "description": "List tasks"}''\<close>




lemma no_Item_in_text: "\<not> sublist ''Item'' endpoints_only_text"
  by code_simp




end
